theory Spec2Isabelle
  imports Complex_Main
begin

section \<open>Python strings and \<^verbatim>\<open>pathlib\<close> paths\<close>

text \<open>
  The service builds every artifact location with \<^verbatim>\<open>pathlib.Path\<close> (POSIX flavour).
  Only the operations the sources use are modelled: parsing a string into a path,
  the \<^verbatim>\<open>/\<close> operator, \<^verbatim>\<open>str\<close>, \<^verbatim>\<open>.name\<close>, \<^verbatim>\<open>.suffix\<close> and \<^verbatim>\<open>.parent\<close>.
\<close>

definition startswith :: "string \<Rightarrow> string \<Rightarrow> bool" where
  "startswith s pre = (take (length pre) s = pre)"

definition endswith :: "string \<Rightarrow> string \<Rightarrow> bool" where
  "endswith s suf = (length suf \<le> length s \<and> drop (length s - length suf) s = suf)"

text \<open>\<^verbatim>\<open>s.split(sep)\<close> for a one-character separator: never empty, keeps empty fields.\<close>

fun split_sep :: "char \<Rightarrow> string \<Rightarrow> string list" where
  "split_sep sep [] = [[]]"
| "split_sep sep (c # cs) =
     (if c = sep then [] # split_sep sep cs
      else (case split_sep sep cs of
              [] \<Rightarrow> [[c]]
            | p # ps \<Rightarrow> (c # p) # ps))"

text \<open>\<^verbatim>\<open>sep.join(xs)\<close>.\<close>

fun join_sep :: "string \<Rightarrow> string list \<Rightarrow> string" where
  "join_sep sep [] = []"
| "join_sep sep [x] = x"
| "join_sep sep (x # y # ys) = x @ sep @ join_sep sep (y # ys)"

text \<open>\<^verbatim>\<open>s.rfind(c)\<close>: the index of the last occurrence, \<open>None\<close> for Python's \<open>-1\<close>.\<close>

fun rfind :: "char \<Rightarrow> string \<Rightarrow> nat option" where
  "rfind c [] = None"
| "rfind c (x # xs) =
     (case rfind c xs of
        Some i \<Rightarrow> Some (Suc i)
      | None \<Rightarrow> (if x = c then Some 0 else None))"

text \<open>
  A parsed path: whether it is anchored at the root, and its components. Parsing drops
  empty components and \<^verbatim>\<open>.\<close>, and keeps \<^verbatim>\<open>..\<close> (pathlib never collapses it).
\<close>

record path =
  absolute :: bool
  parts :: "string list"

definition Path :: "string \<Rightarrow> path" where
  "Path s = \<lparr>absolute = startswith s ''/'',
             parts = filter (\<lambda>x. x \<noteq> [] \<and> x \<noteq> ''.'') (split_sep CHR ''/'' s)\<rparr>"

definition path_str :: "path \<Rightarrow> string" where
  "path_str p =
     (if parts p = [] then (if absolute p then ''/'' else ''.'')
      else (if absolute p then ''/'' else []) @ join_sep ''/'' (parts p))"

text \<open>\<^verbatim>\<open>posixpath.join(a, b)\<close>, which the \<^verbatim>\<open>/\<close> operator applies before parsing.\<close>

definition posixpath_join :: "string \<Rightarrow> string \<Rightarrow> string" where
  "posixpath_join a b =
     (if startswith b ''/'' then b
      else if a = [] \<or> endswith a ''/'' then a @ b
      else a @ ''/'' @ b)"

definition truediv :: "path \<Rightarrow> string \<Rightarrow> path" where
  "truediv p s = Path (posixpath_join (path_str p) s)"

definition path_name :: "path \<Rightarrow> string" where
  "path_name p = (if parts p = [] then [] else last (parts p))"

definition path_suffix :: "path \<Rightarrow> string" where
  "path_suffix p =
     (let name = path_name p in
      case rfind CHR ''.'' name of
        None \<Rightarrow> []
      | Some i \<Rightarrow> (if 0 < i \<and> i < length name - 1 then drop i name else []))"

definition path_parent :: "path \<Rightarrow> path" where
  "path_parent p = p\<lparr>parts := butlast (parts p)\<rparr>"


section \<open>Tensor shapes and the network (\<^verbatim>\<open>models/unet_model.py\<close>)\<close>

text \<open>
  A tensor is followed through the network by its shape, the list \<^verbatim>\<open>x.size()\<close>. Every
  layer is a function on shapes that fails where PyTorch raises. The convolution
  weights play no part in any shape.
\<close>

datatype torch_error =
    ChannelMismatch
  | DimError
  | KernelTooLarge
  | PoolTooSmall
  | PadError
  | CatMismatch
  | DTypeMismatch

text \<open>
  The layers the sources instantiate, with the constructor arguments they pass:
  \<open>Conv2d in out kernel_size padding\<close>, \<open>ConvTranspose2d in out kernel_size stride\<close>,
  \<open>MaxPool2d kernel_size\<close>, \<open>Upsample scale_factor\<close>.
\<close>

datatype module =
    Conv2d nat nat nat nat
  | BatchNorm2d nat
  | ReLU
  | MaxPool2d nat
  | ConvTranspose2d nat nat nat nat
  | Upsample nat
  | Sequential "module list"

text \<open>Stride 1: a spatial size \<open>h\<close> becomes \<open>h + 2 * padding - kernel + 1\<close>.\<close>

fun conv2d :: "nat \<Rightarrow> nat \<Rightarrow> nat \<Rightarrow> nat \<Rightarrow> nat list \<Rightarrow> torch_error + nat list" where
  "conv2d cin cout k p [n, c, h, w] =
     (if c \<noteq> cin then Inl ChannelMismatch
      else if h + 2 * p < k \<or> w + 2 * p < k then Inl KernelTooLarge
      else Inr [n, cout, h + 2 * p - k + 1, w + 2 * p - k + 1])"
| "conv2d cin cout k p [c, h, w] =
     (if c \<noteq> cin then Inl ChannelMismatch
      else if h + 2 * p < k \<or> w + 2 * p < k then Inl KernelTooLarge
      else Inr [cout, h + 2 * p - k + 1, w + 2 * p - k + 1])"
| "conv2d cin cout k p x = Inl DimError"

text \<open>Batch normalisation in evaluation mode: four dimensions, the given channel count.\<close>

fun batchnorm2d :: "nat \<Rightarrow> nat list \<Rightarrow> torch_error + nat list" where
  "batchnorm2d f [n, c, h, w] = (if c \<noteq> f then Inl ChannelMismatch else Inr [n, c, h, w])"
| "batchnorm2d f x = Inl DimError"

text \<open>
  Pooling with stride equal to the kernel, no padding, rounding down; PyTorch rejects a
  window larger than the input (the output would be empty).
\<close>

fun maxpool2d :: "nat \<Rightarrow> nat list \<Rightarrow> torch_error + nat list" where
  "maxpool2d k [n, c, h, w] =
     (if h < k \<or> w < k then Inl PoolTooSmall
      else Inr [n, c, (h - k) div k + 1, (w - k) div k + 1])"
| "maxpool2d k [c, h, w] =
     (if h < k \<or> w < k then Inl PoolTooSmall
      else Inr [c, (h - k) div k + 1, (w - k) div k + 1])"
| "maxpool2d k x = Inl DimError"

text \<open>
  Transposed convolution without padding: \<open>h\<close> becomes \<open>(h - 1) * stride + kernel\<close>.
  An empty input is refused here; no call of this network reaches that case, since
  pooling never returns an empty tensor.
\<close>

fun convtranspose2d :: "nat \<Rightarrow> nat \<Rightarrow> nat \<Rightarrow> nat \<Rightarrow> nat list \<Rightarrow> torch_error + nat list" where
  "convtranspose2d cin cout k st [n, c, h, w] =
     (if c \<noteq> cin then Inl ChannelMismatch
      else if h = 0 \<or> w = 0 then Inl DimError
      else Inr [n, cout, (h - 1) * st + k, (w - 1) * st + k])"
| "convtranspose2d cin cout k st [c, h, w] =
     (if c \<noteq> cin then Inl ChannelMismatch
      else if h = 0 \<or> w = 0 then Inl DimError
      else Inr [cout, (h - 1) * st + k, (w - 1) * st + k])"
| "convtranspose2d cin cout k st x = Inl DimError"

text \<open>Bilinear upsampling by an integer factor: four dimensions only.\<close>

fun upsample :: "nat \<Rightarrow> nat list \<Rightarrow> torch_error + nat list" where
  "upsample f [n, c, h, w] = Inr [n, c, h * f, w * f]"
| "upsample f x = Inl DimError"

fun forward :: "module \<Rightarrow> nat list \<Rightarrow> torch_error + nat list"
  and forward_seq :: "module list \<Rightarrow> nat list \<Rightarrow> torch_error + nat list" where
  "forward (Conv2d cin cout k p) x = conv2d cin cout k p x"
| "forward (BatchNorm2d f) x = batchnorm2d f x"
| "forward ReLU x = Inr x"
| "forward (MaxPool2d k) x = maxpool2d k x"
| "forward (ConvTranspose2d cin cout k st) x = convtranspose2d cin cout k st x"
| "forward (Upsample f) x = upsample f x"
| "forward (Sequential ms) x = forward_seq ms x"
| "forward_seq [] x = Inr x"
| "forward_seq (m # ms) x =
     (case forward m x of
        Inl e \<Rightarrow> Inl e
      | Inr y \<Rightarrow> forward_seq ms y)"

text \<open>
  \<^verbatim>\<open>DoubleConv(in_channels, out_channels, mid_channels=None)\<close>; \<^verbatim>\<open>not mid_channels\<close> holds
  for \<^verbatim>\<open>None\<close> and for \<open>0\<close>.
\<close>

definition DoubleConv :: "nat \<Rightarrow> nat \<Rightarrow> nat option \<Rightarrow> module" where
  "DoubleConv in_channels out_channels mid_channels =
     (let mid = (case mid_channels of
                   None \<Rightarrow> out_channels
                 | Some m \<Rightarrow> (if m = 0 then out_channels else m))
      in Sequential
           [Conv2d in_channels mid 3 1, BatchNorm2d mid, ReLU,
            Conv2d mid out_channels 3 1, BatchNorm2d out_channels, ReLU])"

definition Down :: "nat \<Rightarrow> nat \<Rightarrow> module" where
  "Down in_channels out_channels =
     Sequential [MaxPool2d 2, DoubleConv in_channels out_channels None]"

record Up =
  up :: module
  conv :: module

definition Up_init :: "nat \<Rightarrow> nat \<Rightarrow> bool \<Rightarrow> Up" where
  "Up_init in_channels out_channels bilin =
     (if bilin
      then \<lparr>up = Upsample 2,
            conv = DoubleConv in_channels out_channels (Some (in_channels div 2))\<rparr>
      else \<lparr>up = ConvTranspose2d in_channels (in_channels div 2) 2 2,
            conv = DoubleConv in_channels out_channels None\<rparr>)"

text \<open>
  \<^verbatim>\<open>F.pad(x, [left, right, top, bottom])\<close> pads the last two dimensions; a negative
  amount crops, and a negative resulting size is an error.
\<close>

definition F_pad :: "nat list \<Rightarrow> int \<Rightarrow> int \<Rightarrow> int \<Rightarrow> int \<Rightarrow> torch_error + nat list" where
  "F_pad x pad_l pad_r pad_t pad_b =
     (let k = length x in
      if k < 2 then Inl DimError
      else
        let h = int (x ! (k - 2)) + pad_t + pad_b;
            w = int (x ! (k - 1)) + pad_l + pad_r
        in if h < 0 \<or> w < 0 then Inl PadError
           else Inr (take (k - 2) x @ [nat h, nat w]))"

text \<open>
  \<^verbatim>\<open>torch.cat([a, b], dim=1)\<close>: the same number of dimensions and the same size in every
  dimension but the second.
\<close>

definition torch_cat1 :: "nat list \<Rightarrow> nat list \<Rightarrow> torch_error + nat list" where
  "torch_cat1 a b =
     (if length a = length b \<and> 1 < length a \<and> a[1 := 0] = b[1 := 0]
      then Inr (a[1 := a ! 1 + b ! 1])
      else Inl CatMismatch)"

text \<open>
  Lines 61 to 65 of \<^verbatim>\<open>Up.forward\<close>: the padding amounts (left, right, top, bottom) for
  the upsampled \<open>x1\<close> against its partner \<open>x2\<close>. Python's \<^verbatim>\<open>//\<close> rounds down, as \<open>div\<close>
  does on integers.
\<close>

definition Up_padding :: "nat list \<Rightarrow> nat list \<Rightarrow> int \<times> int \<times> int \<times> int" where
  "Up_padding x1 x2 =
     (let diffY = int (x2 ! 2) - int (x1 ! 2);
          diffX = int (x2 ! 3) - int (x1 ! 3)
      in (diffX div 2, diffX - diffX div 2, diffY div 2, diffY - diffY div 2))"

text \<open>
  The first half of \<^verbatim>\<open>Up.forward\<close> (lines 58 to 65): upsample \<open>x1\<close>, read both sizes and
  pad \<open>x1\<close>. Reading \<^verbatim>\<open>size()[3]\<close> of a tensor with fewer dimensions is an error.
\<close>

definition Up_align :: "Up \<Rightarrow> nat list \<Rightarrow> nat list \<Rightarrow> torch_error + nat list" where
  "Up_align u x1 x2 =
     (case forward (up u) x1 of
        Inl e \<Rightarrow> Inl e
      | Inr x1' \<Rightarrow>
          (if length x2 < 4 \<or> length x1' < 4 then Inl DimError
           else (case Up_padding x1' x2 of
                   (pad_l, pad_r, pad_t, pad_b) \<Rightarrow> F_pad x1' pad_l pad_r pad_t pad_b)))"

definition Up_forward :: "Up \<Rightarrow> nat list \<Rightarrow> nat list \<Rightarrow> torch_error + nat list" where
  "Up_forward u x1 x2 =
     (case Up_align u x1 x2 of
        Inl e \<Rightarrow> Inl e
      | Inr x1 \<Rightarrow>
          (case torch_cat1 x2 x1 of
             Inl e \<Rightarrow> Inl e
           | Inr x \<Rightarrow> forward (conv u) x))"

definition OutConv :: "nat \<Rightarrow> nat \<Rightarrow> module" where
  "OutConv in_channels out_channels = Conv2d in_channels out_channels 1 0"

record UNet =
  n_channels :: nat
  n_classes :: nat
  bilinear :: bool
  inc :: module
  down1 :: module
  down2 :: module
  down3 :: module
  down4 :: module
  up1 :: Up
  up2 :: Up
  up3 :: Up
  up4 :: Up
  outc :: module

definition UNet_init :: "nat \<Rightarrow> nat \<Rightarrow> bool \<Rightarrow> UNet" where
  "UNet_init nch ncl bilin =
     (let factor = (if bilin then 2 else 1) in
      \<lparr>n_channels = nch, n_classes = ncl, bilinear = bilin,
       inc = DoubleConv nch 64 None,
       down1 = Down 64 128,
       down2 = Down 128 256,
       down3 = Down 256 512,
       down4 = Down 512 (1024 div factor),
       up1 = Up_init 1024 (512 div factor) bilin,
       up2 = Up_init 512 (256 div factor) bilin,
       up3 = Up_init 256 (128 div factor) bilin,
       up4 = Up_init 128 64 bilin,
       outc = OutConv 64 ncl\<rparr>)"

definition UNet_forward :: "UNet \<Rightarrow> nat list \<Rightarrow> torch_error + nat list" where
  "UNet_forward net x =
     (case forward (inc net) x of Inl e \<Rightarrow> Inl e | Inr x1 \<Rightarrow>
     (case forward (down1 net) x1 of Inl e \<Rightarrow> Inl e | Inr x2 \<Rightarrow>
     (case forward (down2 net) x2 of Inl e \<Rightarrow> Inl e | Inr x3 \<Rightarrow>
     (case forward (down3 net) x3 of Inl e \<Rightarrow> Inl e | Inr x4 \<Rightarrow>
     (case forward (down4 net) x4 of Inl e \<Rightarrow> Inl e | Inr x5 \<Rightarrow>
     (case Up_forward (up1 net) x5 x4 of Inl e \<Rightarrow> Inl e | Inr y1 \<Rightarrow>
     (case Up_forward (up2 net) y1 x3 of Inl e \<Rightarrow> Inl e | Inr y2 \<Rightarrow>
     (case Up_forward (up3 net) y2 x2 of Inl e \<Rightarrow> Inl e | Inr y3 \<Rightarrow>
     (case Up_forward (up4 net) y3 x1 of Inl e \<Rightarrow> Inl e | Inr y4 \<Rightarrow>
        forward (outc net) y4)))))))))"

section \<open>The environment: files, logs and library calls\<close>

text \<open>
  What the directories hold. An image file records the raster it decodes to (rows,
  columns, channels); a weights file records whether the pickled state dictionary is
  non-empty (its truth value in Python) and whether its keys fit the network (whether
  \<^verbatim>\<open>load_state_dict\<close> accepts it); anything else is opaque bytes.
\<close>

datatype file_data =
    ImageFile nat nat nat
  | WeightsFile bool bool
  | OtherBytes

text \<open>The exceptions the sources raise or receive from their libraries.\<close>

datatype exn =
    HTTPException nat string
  | ValueError string
  | AttributeError
  | OSError
  | FileExistsError
  | Cv2Error
  | UnpicklingError
  | StateDictError
  | RuntimeError torch_error
  | Exception string

definition exn_str :: "exn \<Rightarrow> string" where
  "exn_str e =
     (case e of
        HTTPException c d \<Rightarrow> d
      | ValueError m \<Rightarrow> m
      | Exception m \<Rightarrow> m
      | AttributeError \<Rightarrow> ''AttributeError''
      | OSError \<Rightarrow> ''OSError''
      | FileExistsError \<Rightarrow> ''FileExistsError''
      | Cv2Error \<Rightarrow> ''cv2.error''
      | UnpicklingError \<Rightarrow> ''UnpicklingError''
      | StateDictError \<Rightarrow> ''load_state_dict''
      | RuntimeError t \<Rightarrow> ''RuntimeError'')"

datatype level = INFO | WARNING | ERROR

datatype interpolation = INTER_NEAREST | INTER_LINEAR | INTER_CUBIC | INTER_AREA | INTER_LANCZOS4

text \<open>
  The calls into the runtime and the libraries that the properties below depend on, in
  the order they are made: the garbage collector, the device cache, the resampling call
  with its size and interpolation, and the network's forward pass on a tensor shape.
\<close>

datatype call =
    Gc_collect
  | Cuda_empty_cache
  | Cv2_resize nat nat interpolation
  | Model_forward "nat list"

text \<open>
  A colorizer object (\<^verbatim>\<open>UNetColorizer\<close>): its device, its network, and whether
  pre-trained weights were loaded into the network.
\<close>

record UNetColorizer =
  device :: string
  model :: UNet
  pretrained :: bool

text \<open>
  The state the program runs in. Directories and files are keyed by their resolved
  location (the list of components from the root); \<open>cwd\<close> is the process's working
  directory; \<open>writers\<close> are the file extensions the installed OpenCV build can encode;
  \<open>colorizer\<close> is the module-level global of \<^verbatim>\<open>main.py\<close>; \<open>logs\<close> is the logging
  stream and \<open>calls\<close> the trace of library calls.
\<close>

record state =
  cwd :: "string list"
  dirs :: "string list set"
  files :: "string list \<rightharpoonup> file_data"
  cuda_available :: bool
  writers :: "string set"
  colorizer :: "UNetColorizer option"
  logs :: "(level \<times> string) list"
  calls :: "call list"

definition logger :: "level \<Rightarrow> string \<Rightarrow> state \<Rightarrow> state" where
  "logger l m s = s\<lparr>logs := logs s @ [(l, m)]\<rparr>"

definition record_call :: "call \<Rightarrow> state \<Rightarrow> state" where
  "record_call c s = s\<lparr>calls := calls s @ [c]\<rparr>"

subsection \<open>Path resolution\<close>

text \<open>
  The limits of the filesystem (Linux): a path component holds at most \<open>NAME_MAX\<close>
  bytes, and a path handed to a system call is shorter than \<open>PATH_MAX\<close> bytes.
\<close>

definition NAME_MAX :: nat where
  "NAME_MAX = 255"

definition PATH_MAX :: nat where
  "PATH_MAX = 4096"

text \<open>
  The errors of a lookup. \<open>ENOENT\<close> also stands for \<open>ENOTDIR\<close> (a file where a
  directory is needed): no caller tells the two apart.
\<close>

datatype errno = ENOENT | ENAMETOOLONG

text \<open>
  The operating system resolves a path component by component (no symbolic links, and
  every directory may be searched): every directory it passes through must exist, a
  component longer than \<open>NAME_MAX\<close> cannot be looked up, and \<^verbatim>\<open>..\<close> steps to the parent.
\<close>

fun walk :: "string list set \<Rightarrow> string list \<Rightarrow> string list \<Rightarrow> errno + string list" where
  "walk ds cur [] = Inr cur"
| "walk ds cur (c # cs) =
     (if cur \<notin> ds then Inl ENOENT
      else if NAME_MAX < length c then Inl ENAMETOOLONG
      else walk ds (if c = ''..'' then butlast cur else cur @ [c]) cs)"

definition resolve :: "state \<Rightarrow> path \<Rightarrow> errno + string list" where
  "resolve s p = walk (dirs s) (if absolute p then [] else cwd s) (parts p)"

text \<open>
  \<^verbatim>\<open>Path.exists()\<close>: it calls \<^verbatim>\<open>os.stat\<close> on the string of the path. A path with an embedded
  null byte raises \<^verbatim>\<open>ValueError\<close> before any system call, which \<^verbatim>\<open>exists\<close> catches and
  answers \<^verbatim>\<open>False\<close>. Of the \<^verbatim>\<open>OSError\<close>s it catches those that say the entry is missing and
  raises the others again: a path of \<open>PATH_MAX\<close> bytes or more, or a component over
  \<open>NAME_MAX\<close>.
\<close>

definition path_exists :: "state \<Rightarrow> path \<Rightarrow> exn + bool" where
  "path_exists s p =
     (if CHR 0x00 \<in> set (path_str p) then Inr False
      else if PATH_MAX \<le> length (path_str p) then Inl OSError
      else (case resolve s p of
              Inl ENOENT \<Rightarrow> Inr False
            | Inl ENAMETOOLONG \<Rightarrow> Inl OSError
            | Inr q \<Rightarrow> Inr (q \<in> dirs s \<or> files s q \<noteq> None)))"

text \<open>Opening a file for writing and writing its whole content.\<close>

definition write_file :: "state \<Rightarrow> string \<Rightarrow> file_data \<Rightarrow> state option" where
  "write_file s p d =
     (case resolve s (Path p) of
        Inl e \<Rightarrow> None
      | Inr q \<Rightarrow>
          (if q \<in> dirs s \<or> butlast q \<notin> dirs s then None
           else Some (s\<lparr>files := (files s)(q \<mapsto> d)\<rparr>)))"

definition read_file :: "state \<Rightarrow> string \<Rightarrow> file_data option" where
  "read_file s p =
     (case resolve s (Path p) of
        Inl e \<Rightarrow> None
      | Inr q \<Rightarrow> files s q)"

text \<open>
  \<^verbatim>\<open>Path.mkdir(exist_ok=True)\<close>: the parent must exist; an existing directory is
  accepted, an existing file is not.
\<close>

definition mkdir_exist_ok :: "state \<Rightarrow> path \<Rightarrow> exn + state" where
  "mkdir_exist_ok s p =
     (case resolve s p of
        Inl e \<Rightarrow> Inl OSError
      | Inr q \<Rightarrow>
          (if q \<in> dirs s then Inr s
           else if files s q \<noteq> None then Inl FileExistsError
           else if butlast q \<notin> dirs s then Inl OSError
           else Inr (s\<lparr>dirs := insert q (dirs s)\<rparr>)))"

text \<open>
  \<^verbatim>\<open>Path.mkdir(parents=True, exist_ok=True)\<close>: every missing directory on the way is
  created; a file in the way is an error, and so is a component over \<open>NAME_MAX\<close>.
\<close>

fun makedirs :: "string list set \<Rightarrow> (string list \<rightharpoonup> file_data) \<Rightarrow> string list \<Rightarrow> string list \<Rightarrow> exn + string list set" where
  "makedirs ds fm cur [] = (if fm cur \<noteq> None then Inl FileExistsError else Inr (insert cur ds))"
| "makedirs ds fm cur (c # cs) =
     (if fm cur \<noteq> None then Inl FileExistsError
      else if NAME_MAX < length c then Inl OSError
      else makedirs (insert cur ds) fm (if c = ''..'' then butlast cur else cur @ [c]) cs)"

definition mkdir_parents :: "state \<Rightarrow> path \<Rightarrow> exn + state" where
  "mkdir_parents s p =
     (case makedirs (dirs s) (files s) (if absolute p then [] else cwd s) (parts p) of
        Inl e \<Rightarrow> Inl e
      | Inr ds \<Rightarrow> Inr (s\<lparr>dirs := ds\<rparr>))"

section \<open>Arrays and the tensor codec\<close>

text \<open>
  An array or tensor is abstracted to its element type, its shape and, when known, an
  interval that holds every element. The interval is over the reals: the sources'
  arithmetic on it (division by 255, the affine map, clipping) is monotone and its end
  points are exactly representable, so rounding does not leave the interval.
\<close>

datatype dtype = UInt8 | Float32 | Float64

record array =
  dtype :: dtype
  shape :: "nat list"
  bounds :: "(real \<times> real) option"

text \<open>
  \<^verbatim>\<open>cv2.imread(path, cv2.IMREAD_GRAYSCALE)\<close>: \<^verbatim>\<open>None\<close> when the file is missing or does not
  decode, else a two-dimensional 8-bit array.
\<close>

definition cv2_imread_gray :: "state \<Rightarrow> string \<Rightarrow> array option" where
  "cv2_imread_gray s p =
     (case read_file s p of
        Some (ImageFile r c ch) \<Rightarrow> Some \<lparr>dtype = UInt8, shape = [r, c], bounds = Some (0, 255)\<rparr>
      | _ \<Rightarrow> None)"

text \<open>
  \<^verbatim>\<open>cv2.resize(src, (width, height), interpolation=...)\<close>. The size argument is (width,
  height), the resulting shape (height, width). The call is recorded with the
  interpolation it runs with. An empty source or target is an error.
\<close>

definition cv2_resize :: "state \<Rightarrow> array \<Rightarrow> nat \<Rightarrow> nat \<Rightarrow> interpolation \<Rightarrow> (exn + array) \<times> state" where
  "cv2_resize s src width height interp =
     (let s' = record_call (Cv2_resize width height interp) s in
      if length (shape src) < 2 \<or> 0 \<in> set (shape src) \<or> width = 0 \<or> height = 0
      then (Inl Cv2Error, s')
      else (Inr (src\<lparr>shape := [height, width] @ drop 2 (shape src),
                      bounds := (if dtype src = UInt8 then Some (0, 255) else None)\<rparr>), s'))"

text \<open>
  The interpolation \<^verbatim>\<open>cv2.resize\<close> runs with when the caller passes none: OpenCV's
  signature declares \<^verbatim>\<open>interpolation=INTER_LINEAR\<close>.
\<close>

definition default_interpolation :: interpolation where
  "default_interpolation = INTER_LINEAR"

definition astype :: "dtype \<Rightarrow> array \<Rightarrow> array" where
  "astype t a =
     a\<lparr>dtype := t,
       bounds := (case t of UInt8 \<Rightarrow> Some (0, 255) | Float32 \<Rightarrow> bounds a | Float64 \<Rightarrow> bounds a)\<rparr>"

text \<open>\<^verbatim>\<open>a / k\<close> for a positive Python float \<open>k\<close>: 32-bit floats stay 32-bit.\<close>

definition div_scalar :: "array \<Rightarrow> real \<Rightarrow> array" where
  "div_scalar a k =
     a\<lparr>dtype := (if dtype a = Float32 then Float32 else Float64),
       bounds := map_option (\<lambda>(lo, hi). (lo / k, hi / k)) (bounds a)\<rparr>"

definition unsqueeze0 :: "array \<Rightarrow> array" where
  "unsqueeze0 a = a\<lparr>shape := 1 # shape a\<rparr>"

text \<open>\<^verbatim>\<open>t.squeeze(0)\<close> removes the first dimension only when its size is 1.\<close>

definition squeeze0 :: "array \<Rightarrow> array" where
  "squeeze0 a =
     a\<lparr>shape := (case shape a of
                    [] \<Rightarrow> []
                  | d # ds \<Rightarrow> (if d = 1 then ds else d # ds))\<rparr>"

text \<open>\<^verbatim>\<open>np.transpose(a, (1, 2, 0))\<close>: three dimensions, or a \<^verbatim>\<open>ValueError\<close>.\<close>

definition transpose_120 :: "array \<Rightarrow> exn + array" where
  "transpose_120 a =
     (case shape a of
        [c, h, w] \<Rightarrow> Inr (a\<lparr>shape := [h, w, c]\<rparr>)
      | _ \<Rightarrow> Inl (ValueError ''axes don't match array''))"

text \<open>\<^verbatim>\<open>(a + 1) * 127.5\<close> and \<^verbatim>\<open>a.clip(0, 255)\<close>.\<close>

definition affine_255 :: "array \<Rightarrow> array" where
  "affine_255 a = a\<lparr>bounds := map_option (\<lambda>(lo, hi). ((lo + 1) * 127.5, (hi + 1) * 127.5)) (bounds a)\<rparr>"

definition clip_0_255 :: "array \<Rightarrow> array" where
  "clip_0_255 a =
     a\<lparr>bounds := Some (case bounds a of
                         None \<Rightarrow> (0, 255)
                       | Some (lo, hi) \<Rightarrow> (max 0 (min 255 lo), max 0 (min 255 hi)))\<rparr>"

text \<open>
  Calling the network on a tensor: the weights are 32-bit floats, the output's shape
  is the forward pass's, and its values are not constrained (no final activation).
\<close>

definition UNet_call :: "UNet \<Rightarrow> array \<Rightarrow> exn + array" where
  "UNet_call net x =
     (if dtype x \<noteq> Float32 then Inl (RuntimeError DTypeMismatch)
      else (case UNet_forward net (shape x) of
              Inl e \<Rightarrow> Inl (RuntimeError e)
            | Inr sh \<Rightarrow> Inr \<lparr>dtype = Float32, shape = sh, bounds = None\<rparr>))"

section \<open>The colorizer (\<^verbatim>\<open>UNetColorizer\<close>)\<close>

text \<open>
  \<^verbatim>\<open>torch.load(path)\<close>: raises when the file is missing or is not a pickled object; else
  the state dictionary, given by its truth value and whether it fits the network.
\<close>

definition torch_load :: "state \<Rightarrow> string \<Rightarrow> exn + bool \<times> bool" where
  "torch_load s p =
     (case read_file s p of
        None \<Rightarrow> Inl OSError
      | Some (WeightsFile nonempty fits) \<Rightarrow> Inr (nonempty, fits)
      | Some _ \<Rightarrow> Inl UnpicklingError)"

text \<open>
  \<^verbatim>\<open>UNetColorizer.__init__(model_path=None, device="cpu")\<close>. The guard of line 122 calls
  \<^verbatim>\<open>torch.load\<close> outside the \<^verbatim>\<open>try\<close>; the \<^verbatim>\<open>try\<close> of lines 123 to 127 loads again and
  applies the weights, and turns a failure into a warning.
\<close>

definition UNetColorizer_finish :: "UNetColorizer \<Rightarrow> state \<Rightarrow> (exn + UNetColorizer) \<times> state" where
  "UNetColorizer_finish self s =
     (Inr self, logger INFO (''U-Net model initialized on device: '' @ device self) s)"

definition UNetColorizer_init :: "state \<Rightarrow> string option \<Rightarrow> string \<Rightarrow> (exn + UNetColorizer) \<times> state" where
  "UNetColorizer_init s model_path dev =
     (let self = \<lparr>device = (if cuda_available s then dev else ''cpu''),
                  model = UNet_init 1 3 False,
                  pretrained = False\<rparr>
      in case model_path of
           None \<Rightarrow> UNetColorizer_finish self s
         | Some p \<Rightarrow>
             (if p = [] then UNetColorizer_finish self s
              else (case torch_load s p of
                      Inl e \<Rightarrow> (Inl e, s)
                    | Inr (nonempty, fits) \<Rightarrow>
                        (if \<not> nonempty then UNetColorizer_finish self s
                         else (case torch_load s p of
                                 Inl e \<Rightarrow>
                                   UNetColorizer_finish self
                                     (logger WARNING (''Failed to load pre-trained model: '' @ exn_str e) s)
                               | Inr (nonempty', fits') \<Rightarrow>
                                   (if fits'
                                    then UNetColorizer_finish (self\<lparr>pretrained := True\<rparr>)
                                           (logger INFO (''Loaded pre-trained model from '' @ p) s)
                                    else UNetColorizer_finish self
                                           (logger WARNING
                                              (''Failed to load pre-trained model: '' @ exn_str StateDictError) s)))))))"

definition preprocess_image :: "UNetColorizer \<Rightarrow> state \<Rightarrow> string \<Rightarrow> (exn + array) \<times> state" where
  "preprocess_image self s image_path =
     (case cv2_imread_gray s image_path of
        None \<Rightarrow> (Inl (ValueError (''Could not load image from '' @ image_path)), s)
      | Some img \<Rightarrow>
          (case cv2_resize s img 256 256 default_interpolation of
             (Inl e, s') \<Rightarrow> (Inl e, s')
           | (Inr resized, s') \<Rightarrow>
               (Inr (unsqueeze0 (unsqueeze0 (div_scalar (astype Float32 resized) 255))), s')))"

definition postprocess_output :: "UNetColorizer \<Rightarrow> array \<Rightarrow> exn + array" where
  "postprocess_output self output =
     (case transpose_120 (squeeze0 output) of
        Inl e \<Rightarrow> Inl e
      | Inr out \<Rightarrow> Inr (astype UInt8 (clip_0_255 (affine_255 out))))"

definition colorize :: "UNetColorizer \<Rightarrow> state \<Rightarrow> string \<Rightarrow> (exn + array) \<times> state" where
  "colorize self s image_path =
     (case preprocess_image self s image_path of
        (Inl e, s') \<Rightarrow> (Inl e, s')
      | (Inr input_tensor, s') \<Rightarrow>
          (let s'' = record_call (Model_forward (shape input_tensor)) s' in
           case UNet_call (model self) input_tensor of
             Inl e \<Rightarrow> (Inl e, s'')
           | Inr output \<Rightarrow> (postprocess_output self output, s'')))"

section \<open>The memory optimizer (\<^verbatim>\<open>memory_config.py\<close>)\<close>

text \<open>
  \<^verbatim>\<open>MemoryOptimizer\<close> with the device it selected. Its \<^verbatim>\<open>print\<close> output is not modelled.
\<close>

record MemoryOptimizer =
  mo_device :: string

definition clear_memory :: "MemoryOptimizer \<Rightarrow> state \<Rightarrow> state" where
  "clear_memory self s =
     (let s' = record_call Gc_collect s in
      if mo_device self = ''cuda'' then record_call Cuda_empty_cache s' else s')"

text \<open>
  \<^verbatim>\<open>process_image_optimized(model, image_tensor)\<close>: \<open>model\<close> is any callable on tensors;
  an exception anywhere in the body gives \<^verbatim>\<open>None\<close>.
\<close>

definition process_image_optimized ::
    "MemoryOptimizer \<Rightarrow> state \<Rightarrow> (array \<Rightarrow> exn + array) \<Rightarrow> array \<Rightarrow> array option \<times> state" where
  "process_image_optimized self s mdl image_tensor =
     (let s1 = clear_memory self s;
          x = (if length (shape image_tensor) = 3 then unsqueeze0 image_tensor else image_tensor);
          s2 = record_call (Model_forward (shape x)) s1
      in case mdl x of
           Inl e \<Rightarrow> (None, s2)
         | Inr output \<Rightarrow> (Some output, clear_memory self s2))"

section \<open>Image utilities (\<^verbatim>\<open>utils/image_processing.py\<close>)\<close>

text \<open>
  \<^verbatim>\<open>cv2.imwrite(path, img)\<close>: the encoder is chosen by the text from the last dot of the
  path; without an encoder for it the call raises. With one, the file is written at
  exactly that path, and the call returns whether it could be opened.
\<close>

definition cv2_imwrite :: "state \<Rightarrow> string \<Rightarrow> array \<Rightarrow> (exn + bool) \<times> state" where
  "cv2_imwrite s p img =
     (case rfind CHR ''.'' p of
        None \<Rightarrow> (Inl Cv2Error, s)
      | Some i \<Rightarrow>
          (if drop i p \<notin> writers s then (Inl Cv2Error, s)
           else (case shape img of
                   [h, w] \<Rightarrow>
                     (case write_file s p (ImageFile h w 1) of
                        None \<Rightarrow> (Inr False, s)
                      | Some s' \<Rightarrow> (Inr True, s'))
                 | [h, w, c] \<Rightarrow>
                     (case write_file s p (ImageFile h w c) of
                        None \<Rightarrow> (Inr False, s)
                      | Some s' \<Rightarrow> (Inr True, s'))
                 | _ \<Rightarrow> (Inl Cv2Error, s))))"

text \<open>
  \<^verbatim>\<open>process_image(image_path, colorizer)\<close>: the executor runs \<^verbatim>\<open>colorizer.colorize\<close>; with
  \<^verbatim>\<open>colorizer\<close> being \<^verbatim>\<open>None\<close> the attribute access raises. Errors are logged and raised
  again.
\<close>

definition process_image :: "state \<Rightarrow> string \<Rightarrow> UNetColorizer option \<Rightarrow> (exn + array) \<times> state" where
  "process_image s image_path clr =
     (case (case clr of
              None \<Rightarrow> (Inl AttributeError, s)
            | Some c \<Rightarrow> colorize c s image_path) of
        (Inl e, s') \<Rightarrow>
          (Inl e, logger ERROR (''Error processing image '' @ image_path @ '': '' @ exn_str e) s')
      | (Inr colorized_image, s') \<Rightarrow>
          (Inr colorized_image, logger INFO (''Image colorization completed for '' @ image_path) s'))"

definition save_image_body :: "state \<Rightarrow> array \<Rightarrow> string \<Rightarrow> (exn + unit) \<times> state" where
  "save_image_body s image_array output_path =
     (case mkdir_parents s (path_parent (Path output_path)) of
        Inl e \<Rightarrow> (Inl e, s)
      | Inr s1 \<Rightarrow>
          (case cv2_imwrite s1 output_path image_array of
             (Inl e, s2) \<Rightarrow> (Inl e, s2)
           | (Inr success, s2) \<Rightarrow>
               (if \<not> success then (Inl (Exception (''Failed to save image to '' @ output_path)), s2)
                else (Inr (), logger INFO (''Image saved successfully to '' @ output_path) s2))))"

text \<open>
  \<^verbatim>\<open>save_image(image_array, output_path)\<close>: the body above inside \<^verbatim>\<open>try\<close>; the handler
  logs and raises again. The channel swap before writing changes no shape.
\<close>

definition save_image :: "state \<Rightarrow> array \<Rightarrow> string \<Rightarrow> (exn + unit) \<times> state" where
  "save_image s image_array output_path =
     (case save_image_body s image_array output_path of
        (Inl e, s') \<Rightarrow>
          (Inl e, logger ERROR (''Error saving image to '' @ output_path @ '': '' @ exn_str e) s')
      | (Inr u, s') \<Rightarrow> (Inr u, s'))"


section \<open>The service (\<^verbatim>\<open>main.py\<close>)\<close>

text \<open>Response bodies: the dictionaries the handlers return.\<close>

datatype json =
    JStr string
  | JInt int
  | JBool bool
  | JObj "(string \<times> json) list"

record FileResponse =
  fr_path :: path
  fr_filename :: string
  fr_media_type :: string

text \<open>
  An upload as the handler reads it: \<^verbatim>\<open>file.filename\<close>, \<^verbatim>\<open>file.content_type\<close> (absent
  when the part carries no content type), \<^verbatim>\<open>file.size\<close> and the bytes \<^verbatim>\<open>file.read()\<close>
  returns.
\<close>

record UploadFile =
  filename :: string
  content_type :: "string option"
  file_size :: nat
  content :: file_data

definition UPLOAD_DIR :: path where
  "UPLOAD_DIR = Path ''uploads''"

definition OUTPUT_DIR :: path where
  "OUTPUT_DIR = Path ''outputs''"

text \<open>Lines 40 and 41, run when the module is imported.\<close>

definition create_directories :: "state \<Rightarrow> exn + state" where
  "create_directories s =
     (case mkdir_exist_ok s UPLOAD_DIR of
        Inl e \<Rightarrow> Inl e
      | Inr s' \<Rightarrow> mkdir_exist_ok s' OUTPUT_DIR)"

text \<open>\<^verbatim>\<open>startup_event\<close> constructs the colorizer with no argument.\<close>

definition startup_event :: "state \<Rightarrow> state" where
  "startup_event s =
     (case UNetColorizer_init s None ''cpu'' of
        (Inr c, s') \<Rightarrow>
          logger INFO ''U-Net colorization model loaded successfully'' (s'\<lparr>colorizer := Some c\<rparr>)
      | (Inl e, s') \<Rightarrow>
          (logger ERROR (''Failed to load model: '' @ exn_str e) s')\<lparr>colorizer := None\<rparr>)"

definition health_check :: "state \<Rightarrow> json" where
  "health_check s =
     JObj [(''status'', JStr ''healthy''),
           (''model_loaded'', JBool (colorizer s \<noteq> None)),
           (''timestamp'', JStr ''2024-01-01T00:00:00Z'')]"

text \<open>
  \<^verbatim>\<open>colorize_image\<close> (\<^verbatim>\<open>POST /api/colorize\<close>). The job identifier drawn by
  \<^verbatim>\<open>uuid.uuid4()\<close> is the argument \<open>file_id\<close>. The result is the response or the
  exception, the new state, and the tasks handed to \<^verbatim>\<open>background_tasks\<close>, each with the
  arguments of \<^verbatim>\<open>process_colorization\<close>. The three checks before the \<^verbatim>\<open>try\<close> raise in
  the order of the source; inside the \<^verbatim>\<open>try\<close> every exception becomes a 500.
\<close>

definition colorize_image ::
    "state \<Rightarrow> UploadFile \<Rightarrow> string \<Rightarrow> (exn + json) \<times> state \<times> (string \<times> string \<times> string) list" where
  "colorize_image s file file_id =
     (case content_type file of
        None \<Rightarrow> (Inl AttributeError, s, [])
      | Some ct \<Rightarrow>
          (if \<not> startswith ct ''image/''
           then (Inl (HTTPException 400 ''File must be an image''), s, [])
           else if file_size file > 10 * 1024 * 1024
           then (Inl (HTTPException 400 ''File size too large (max 10MB)''), s, [])
           else if colorizer s = None
           then (Inl (HTTPException 503 ''Colorization model not available''), s, [])
           else
             (let input_path = truediv UPLOAD_DIR (file_id @ ''_input'' @ path_suffix (Path (filename file)));
                  output_path = truediv OUTPUT_DIR (file_id @ ''_output'' @ path_suffix (Path (filename file)))
              in case write_file s (path_str input_path) (content file) of
                   None \<Rightarrow>
                     (Inl (HTTPException 500 ''Internal server error''),
                      logger ERROR (''Error processing image: '' @ exn_str OSError) s, [])
                 | Some s' \<Rightarrow>
                     (Inr (JObj [(''message'', JStr ''Image uploaded successfully''),
                                 (''file_id'', JStr file_id),
                                 (''status'', JStr ''processing''),
                                 (''input_url'', JStr (''/uploads/'' @ path_name input_path)),
                                 (''output_url'', JStr (''/outputs/'' @ path_name output_path)),
                                 (''progress_url'', JStr (''/api/progress/'' @ file_id))]),
                      s', [(path_str input_path, path_str output_path, file_id)]))))"

text \<open>
  \<^verbatim>\<open>get_progress\<close> (\<^verbatim>\<open>GET /api/progress/{file_id}\<close>). The handler catches nothing: an
  exception of the existence check leaves it as it is.
\<close>

definition get_progress :: "state \<Rightarrow> string \<Rightarrow> exn + json" where
  "get_progress s file_id =
     (let output_path = truediv OUTPUT_DIR (file_id @ ''_output.jpg'') in
      case path_exists s output_path of
        Inl e \<Rightarrow> Inl e
      | Inr present \<Rightarrow>
          (if present
           then Inr (JObj [(''file_id'', JStr file_id),
                           (''status'', JStr ''completed''),
                           (''progress'', JInt 100),
                           (''output_url'', JStr (''/outputs/'' @ path_name output_path))])
           else Inr (JObj [(''file_id'', JStr file_id),
                           (''status'', JStr ''processing''),
                           (''progress'', JInt 50)])))"

text \<open>\<^verbatim>\<open>download_result\<close> (\<^verbatim>\<open>GET /api/download/{file_id}\<close>), which catches nothing either.\<close>

definition download_result :: "state \<Rightarrow> string \<Rightarrow> exn + FileResponse" where
  "download_result s file_id =
     (let output_path = truediv OUTPUT_DIR (file_id @ ''_output.jpg'') in
      case path_exists s output_path of
        Inl e \<Rightarrow> Inl e
      | Inr present \<Rightarrow>
          (if \<not> present
           then Inl (HTTPException 404 ''Result not found'')
           else Inr \<lparr>fr_path = output_path,
                     fr_filename = ''colorized_'' @ file_id @ ''.jpg'',
                     fr_media_type = ''image/jpeg''\<rparr>))"

text \<open>
  The body of the \<^verbatim>\<open>try\<close> in \<^verbatim>\<open>process_colorization\<close>: colorize with the global
  colorizer, then save.
\<close>

definition colorization_work :: "state \<Rightarrow> string \<Rightarrow> string \<Rightarrow> string \<Rightarrow> (exn + unit) \<times> state" where
  "colorization_work s input_path output_path file_id =
     (case process_image (logger INFO (''Starting colorization for file '' @ file_id) s)
             input_path (colorizer s) of
        (Inl e, s1) \<Rightarrow> (Inl e, s1)
      | (Inr colorized_image, s1) \<Rightarrow>
          (case save_image s1 colorized_image output_path of
             (Inl e, s2) \<Rightarrow> (Inl e, s2)
           | (Inr u, s2) \<Rightarrow> (Inr u, logger INFO (''Colorization completed for file '' @ file_id) s2)))"

text \<open>
  \<^verbatim>\<open>process_colorization\<close>, the background task: the handler of the \<^verbatim>\<open>try\<close> logs the
  exception and returns.
\<close>

definition process_colorization :: "state \<Rightarrow> string \<Rightarrow> string \<Rightarrow> string \<Rightarrow> state" where
  "process_colorization s input_path output_path file_id =
     (case colorization_work s input_path output_path file_id of
        (Inl e, s') \<Rightarrow>
          logger ERROR (''Error in background colorization for '' @ file_id @ '': '' @ exn_str e) s'
      | (Inr u, s') \<Rightarrow> s')"

text \<open>The framework runs the scheduled tasks, in order, after the response is sent.\<close>

fun run_background :: "state \<Rightarrow> (string \<times> string \<times> string) list \<Rightarrow> state" where
  "run_background s [] = s"
| "run_background s ((input_path, output_path, file_id) # ts) =
     run_background (process_colorization s input_path output_path file_id) ts"

definition submit_and_finish :: "state \<Rightarrow> UploadFile \<Rightarrow> string \<Rightarrow> (exn + json) \<times> state" where
  "submit_and_finish s file file_id =
     (case colorize_image s file file_id of
        (r, s', tasks) \<Rightarrow> (r, run_background s' tasks))"

section \<open>Vocabulary of the properties and example states\<close>

text \<open>
  The output location of the persisted artifact layout: \<^verbatim>\<open>{job_id}_output.jpg\<close> in the
  outputs directory.
\<close>

definition output_artifact :: "string \<Rightarrow> path" where
  "output_artifact job_id = truediv OUTPUT_DIR (job_id @ ''_output.jpg'')"

text \<open>A resolved location lies in the directory \<open>d\<close> or below it.\<close>

definition inside_dir :: "string list \<Rightarrow> string list \<Rightarrow> bool" where
  "inside_dir d q = (take (length d) q = d)"

text \<open>The colorizer that \<^verbatim>\<open>UNetColorizer()\<close> constructs on a machine without CUDA.\<close>

definition example_colorizer :: UNetColorizer where
  "example_colorizer = \<lparr>device = ''cpu'', model = UNet_init 1 3 False, pretrained = False\<rparr>"

text \<open>A freshly started service: both directories exist and are empty.\<close>

definition ready_service :: state where
  "ready_service =
     \<lparr>cwd = [''srv''],
      dirs = {[], [''srv''], [''srv'', ''uploads''], [''srv'', ''outputs'']},
      files = Map.empty,
      cuda_available = False,
      writers = {''.jpg'', ''.jpeg'', ''.png'', ''.bmp''},
      colorizer = Some example_colorizer,
      logs = [],
      calls = []\<rparr>"

text \<open>
  The same service holding one finished artifact, and one file next to the outputs
  directory that no job wrote.
\<close>

definition service_with_files :: state where
  "service_with_files =
     ready_service\<lparr>files := [[''srv'', ''outputs'', ''job1_output.jpg''] \<mapsto> ImageFile 256 256 3,
                             [''srv'', ''secret_output.jpg''] \<mapsto> OtherBytes]\<rparr>"

text \<open>The same service holding one uploaded grayscale image of 100 rows and 37 columns.\<close>

definition service_with_upload :: state where
  "service_with_upload =
     ready_service\<lparr>files := [[''srv'', ''uploads'', ''job1_input.png''] \<mapsto> ImageFile 100 37 1]\<rparr>"

text \<open>The service when construction of the colorizer raised at startup.\<close>

definition unavailable_service :: state where
  "unavailable_service = ready_service\<lparr>colorizer := None\<rparr>"

text \<open>Uploads: a text file, a PNG image, a JPEG image, and bytes that are no image under a JPEG name.\<close>

definition text_upload :: UploadFile where
  "text_upload = \<lparr>filename = ''notes.txt'', content_type = Some ''text/plain'',
                   file_size = 12, content = OtherBytes\<rparr>"

definition png_upload :: UploadFile where
  "png_upload = \<lparr>filename = ''photo.png'', content_type = Some ''image/png'',
                  file_size = 5000, content = ImageFile 100 37 1\<rparr>"

definition jpg_upload :: UploadFile where
  "jpg_upload = \<lparr>filename = ''photo.jpg'', content_type = Some ''image/jpeg'',
                  file_size = 5000, content = ImageFile 100 37 1\<rparr>"

definition corrupt_upload :: UploadFile where
  "corrupt_upload = \<lparr>filename = ''broken.jpg'', content_type = Some ''image/jpeg'',
                      file_size = 12, content = OtherBytes\<rparr>"

text \<open>The calls of one memory-release cycle of an optimizer.\<close>

definition release_cycle :: "MemoryOptimizer \<Rightarrow> call list" where
  "release_cycle self = Gc_collect # (if mo_device self = ''cuda'' then [Cuda_empty_cache] else [])"

text \<open>
  What a client can observe of a state: the directories, the files and the engine. The
  log stream and the call trace are not served by any handler.
\<close>

definition same_storage :: "state \<Rightarrow> state \<Rightarrow> bool" where
  "same_storage s s' =
     (cwd s' = cwd s \<and> dirs s' = dirs s \<and> files s' = files s \<and> colorizer s' = colorizer s)"

text \<open>The service holding one upload, under a JPEG name, that is no image.\<close>

definition service_with_corrupt_upload :: state where
  "service_with_corrupt_upload =
     ready_service\<lparr>files := [[''srv'', ''uploads'', ''job1_input.jpg''] \<mapsto> OtherBytes]\<rparr>"

text \<open>The service next to two weights files: one that does not fit the network, one empty.\<close>

definition service_with_weights :: state where
  "service_with_weights =
     unavailable_service\<lparr>files := [[''srv'', ''weights.pth''] \<mapsto> WeightsFile True False,
                                   [''srv'', ''empty.pth''] \<mapsto> WeightsFile False False]\<rparr>"

section \<open>Paths: parsing and resolution\<close>

lemma split_sep_nonempty: "split_sep sep s \<noteq> []"
  by (induction s) (auto split: list.splits)

lemma split_sep_no_sep: "sep \<notin> set s \<Longrightarrow> split_sep sep s = [s]"
  by (induction s) auto

lemma split_sep_append:
  "sep \<notin> set a \<Longrightarrow> split_sep sep (a @ sep # b) = a # split_sep sep b"
  by (induction a) (auto split: list.splits simp: split_sep_nonempty)

lemma path_str_OUTPUT_DIR: "path_str OUTPUT_DIR = ''outputs''"
  by (simp add: OUTPUT_DIR_def Path_def path_str_def startswith_def)

lemma path_str_UPLOAD_DIR: "path_str UPLOAD_DIR = ''uploads''"
  by (simp add: UPLOAD_DIR_def Path_def path_str_def startswith_def)

lemma truediv_OUTPUT_DIR_relative:
  assumes "\<not> startswith b ''/''"
  shows "truediv OUTPUT_DIR b = Path (''outputs/'' @ b)"
  using assms by (simp add: truediv_def path_str_OUTPUT_DIR posixpath_join_def endswith_def)

lemma Path_outputs_name:
  assumes "CHR ''/'' \<notin> set b" "b \<noteq> []" "b \<noteq> ''.''"
  shows "Path (''outputs/'' @ b) = \<lparr>absolute = False, parts = [''outputs'', b]\<rparr>"
proof -
  have "split_sep CHR ''/'' (''outputs'' @ CHR ''/'' # b) = ''outputs'' # split_sep CHR ''/'' b"
    by (rule split_sep_append) simp
  then show ?thesis using assms
    by (simp add: Path_def startswith_def split_sep_no_sep)
qed

text \<open>For an identifier without a slash the artifact is a direct child of the outputs directory.\<close>

lemma output_artifact_parts:
  assumes "CHR ''/'' \<notin> set job_id"
  shows "output_artifact job_id = \<lparr>absolute = False, parts = [''outputs'', job_id @ ''_output.jpg'']\<rparr>"
proof -
  let ?b = "job_id @ ''_output.jpg''"
  have 1: "CHR ''/'' \<notin> set ?b" using assms by simp
  have 2: "?b \<noteq> []" "?b \<noteq> ''.''" by (auto simp: append_eq_Cons_conv)
  have 3: "\<not> startswith ?b ''/''" using assms by (cases job_id) (auto simp: startswith_def)
  show ?thesis unfolding output_artifact_def
    using truediv_OUTPUT_DIR_relative[OF 3] Path_outputs_name[OF 1 2] by simp
qed

lemma path_str_two:
  "path_str \<lparr>absolute = False, parts = [a, b]\<rparr> = a @ ''/'' @ b"
  by (simp add: path_str_def)

lemma path_str_three:
  "path_str \<lparr>absolute = False, parts = [a, b, c]\<rparr> = a @ ''/'' @ b @ ''/'' @ c"
  by (simp add: path_str_def)

lemma path_exists_error: "path_exists s p = Inl e \<Longrightarrow> e = OSError"
  by (auto simp: path_exists_def split: if_splits sum.splits errno.splits)

lemma resolve_output_artifact:
  assumes "CHR ''/'' \<notin> set job_id" "cwd s \<in> dirs s" "cwd s @ [''outputs''] \<in> dirs s"
  shows "resolve s (output_artifact job_id) =
           (if NAME_MAX < length job_id + 11 then Inl ENAMETOOLONG
            else Inr (cwd s @ [''outputs'', job_id @ ''_output.jpg'']))"
  using assms by (simp add: output_artifact_parts resolve_def NAME_MAX_def)

text \<open>
  The existence check of the artifact of an identifier without a slash, in a service
  whose directories are in place.
\<close>

lemma path_exists_output_artifact:
  assumes "CHR ''/'' \<notin> set job_id" "cwd s \<in> dirs s" "cwd s @ [''outputs''] \<in> dirs s"
  shows "path_exists s (output_artifact job_id) =
           (if CHR 0x00 \<in> set job_id then Inr False
            else if NAME_MAX < length job_id + 11 then Inl OSError
            else Inr (cwd s @ [''outputs'', job_id @ ''_output.jpg''] \<in> dirs s
                      \<or> files s (cwd s @ [''outputs'', job_id @ ''_output.jpg'']) \<noteq> None))"
proof -
  have s: "path_str (output_artifact job_id) = ''outputs'' @ ''/'' @ job_id @ ''_output.jpg''"
    unfolding output_artifact_parts[OF assms(1)] by (rule path_str_two)
  have l: "length (path_str (output_artifact job_id)) = length job_id + 19"
    unfolding s by simp
  have z: "CHR 0x00 \<in> set (path_str (output_artifact job_id)) \<longleftrightarrow> CHR 0x00 \<in> set job_id"
    unfolding s by auto
  show ?thesis
    unfolding path_exists_def z l resolve_output_artifact[OF assms]
    by (simp add: NAME_MAX_def PATH_MAX_def)
qed

lemma traversal_parts:
  assumes "CHR ''/'' \<notin> set n"
  shows "output_artifact (''../'' @ n) =
           \<lparr>absolute = False, parts = [''outputs'', ''..'', n @ ''_output.jpg'']\<rparr>"
proof -
  let ?b = "n @ ''_output.jpg''"
  have b: "CHR ''/'' \<notin> set ?b" "?b \<noteq> []" "?b \<noteq> ''.''"
    using assms by (auto simp: append_eq_Cons_conv)
  have "split_sep CHR ''/'' (''outputs'' @ CHR ''/'' # (''..'' @ CHR ''/'' # ?b))
          = ''outputs'' # split_sep CHR ''/'' (''..'' @ CHR ''/'' # ?b)"
    by (rule split_sep_append) simp
  moreover have "split_sep CHR ''/'' (''..'' @ CHR ''/'' # ?b) = ''..'' # split_sep CHR ''/'' ?b"
    by (rule split_sep_append) simp
  ultimately have "split_sep CHR ''/'' (''outputs/../'' @ ?b) = [''outputs'', ''..'', ?b]"
    using b by (simp add: split_sep_no_sep)
  then have "Path (''outputs/../'' @ ?b) = \<lparr>absolute = False, parts = [''outputs'', ''..'', ?b]\<rparr>"
    using b by (simp add: Path_def startswith_def)
  moreover have "truediv OUTPUT_DIR ((''../'' @ n) @ ''_output.jpg'') = Path (''outputs/'' @ (''../'' @ n) @ ''_output.jpg'')"
    by (rule truediv_OUTPUT_DIR_relative) (simp add: startswith_def)
  ultimately show ?thesis by (simp add: output_artifact_def)
qed

lemma path_exists_traversal:
  assumes "CHR ''/'' \<notin> set n" "cwd s \<in> dirs s" "cwd s @ [''outputs''] \<in> dirs s"
  shows "resolve s (output_artifact (''../'' @ n)) =
           (if NAME_MAX < length n + 11 then Inl ENAMETOOLONG
            else Inr (cwd s @ [n @ ''_output.jpg'']))"
    and "path_exists s (output_artifact (''../'' @ n)) =
           (if CHR 0x00 \<in> set n then Inr False
            else if NAME_MAX < length n + 11 then Inl OSError
            else Inr (cwd s @ [n @ ''_output.jpg''] \<in> dirs s
                      \<or> files s (cwd s @ [n @ ''_output.jpg'']) \<noteq> None))"
proof -
  let ?p = "output_artifact (''../'' @ n)"
  note p = traversal_parts[OF assms(1)]
  show r: "resolve s ?p =
           (if NAME_MAX < length n + 11 then Inl ENAMETOOLONG
            else Inr (cwd s @ [n @ ''_output.jpg'']))"
    unfolding p resolve_def using assms(2,3) by (simp add: NAME_MAX_def)
  have s: "path_str ?p = ''outputs'' @ ''/'' @ ''..'' @ ''/'' @ n @ ''_output.jpg''"
    unfolding p by (rule path_str_three)
  have l: "length (path_str ?p) = length n + 22"
    unfolding s by simp
  have z: "CHR 0x00 \<in> set (path_str ?p) \<longleftrightarrow> CHR 0x00 \<in> set n"
    unfolding s by auto
  show "path_exists s ?p =
           (if CHR 0x00 \<in> set n then Inr False
            else if NAME_MAX < length n + 11 then Inl OSError
            else Inr (cwd s @ [n @ ''_output.jpg''] \<in> dirs s
                      \<or> files s (cwd s @ [n @ ''_output.jpg'']) \<noteq> None))"
    unfolding path_exists_def z l r
    by (simp add: NAME_MAX_def PATH_MAX_def)
qed

section \<open>Job status and retrieval\<close>

text \<open>
  Both handlers follow the existence check of the artifact path: absent gives
  \<^verbatim>\<open>processing\<close> with the fixed progress 50 and the 404 \<^verbatim>\<open>Result not found\<close>, present gives
  \<^verbatim>\<open>completed\<close> with progress 100 and the file response, and an exception of the check
  leaves both handlers unchanged.
\<close>

lemma handlers_follow_existence_check:
  "(path_exists s (output_artifact file_id) = Inr False \<longrightarrow>
      get_progress s file_id =
        Inr (JObj [(''file_id'', JStr file_id), (''status'', JStr ''processing''), (''progress'', JInt 50)])
      \<and> download_result s file_id = Inl (HTTPException 404 ''Result not found''))
   \<and> (path_exists s (output_artifact file_id) = Inr True \<longrightarrow>
      get_progress s file_id =
        Inr (JObj [(''file_id'', JStr file_id), (''status'', JStr ''completed''), (''progress'', JInt 100),
                   (''output_url'', JStr (''/outputs/'' @ path_name (output_artifact file_id)))])
      \<and> download_result s file_id =
        Inr \<lparr>fr_path = output_artifact file_id,
             fr_filename = ''colorized_'' @ file_id @ ''.jpg'',
             fr_media_type = ''image/jpeg''\<rparr>)
   \<and> (path_exists s (output_artifact file_id) = Inl e \<longrightarrow>
      get_progress s file_id = Inl e \<and> download_result s file_id = Inl e)"
  by (simp add: get_progress_def download_result_def output_artifact_def Let_def)

text \<open>
  For an identifier without a slash or a null byte, in a service whose directories are
  in place: as long as the artifact's name fits \<open>NAME_MAX\<close> (the identifier has at most
  244 bytes), \<^verbatim>\<open>status\<close> answers \<^verbatim>\<open>processing\<close> when the artifact does not exist and
  \<^verbatim>\<open>completed\<close> when it does, and \<^verbatim>\<open>fetch\<close> answers 404 exactly when it does not exist. For
  a longer identifier both handlers raise.
\<close>

lemma status_and_fetch_by_length:
  assumes "CHR ''/'' \<notin> set file_id" and "CHR 0x00 \<notin> set file_id"
      and "cwd s \<in> dirs s" and "cwd s @ [''outputs''] \<in> dirs s"
  shows "get_progress s file_id =
           (if NAME_MAX < length file_id + 11 then Inl OSError
            else if cwd s @ [''outputs'', file_id @ ''_output.jpg''] \<in> dirs s
                    \<or> files s (cwd s @ [''outputs'', file_id @ ''_output.jpg'']) \<noteq> None
            then Inr (JObj [(''file_id'', JStr file_id), (''status'', JStr ''completed''),
                            (''progress'', JInt 100),
                            (''output_url'', JStr (''/outputs/'' @ file_id @ ''_output.jpg''))])
            else Inr (JObj [(''file_id'', JStr file_id), (''status'', JStr ''processing''),
                            (''progress'', JInt 50)]))"
    and "download_result s file_id =
           (if NAME_MAX < length file_id + 11 then Inl OSError
            else if cwd s @ [''outputs'', file_id @ ''_output.jpg''] \<in> dirs s
                    \<or> files s (cwd s @ [''outputs'', file_id @ ''_output.jpg'']) \<noteq> None
            then Inr \<lparr>fr_path = \<lparr>absolute = False, parts = [''outputs'', file_id @ ''_output.jpg'']\<rparr>,
                      fr_filename = ''colorized_'' @ file_id @ ''.jpg'',
                      fr_media_type = ''image/jpeg''\<rparr>
            else Inl (HTTPException 404 ''Result not found''))"
proof -
  note e = path_exists_output_artifact[OF assms(1,3,4)]
  note p = output_artifact_parts[OF assms(1)]
  have n: "path_name (output_artifact file_id) = file_id @ ''_output.jpg''"
    unfolding p by (simp add: path_name_def)
  show "get_progress s file_id =
           (if NAME_MAX < length file_id + 11 then Inl OSError
            else if cwd s @ [''outputs'', file_id @ ''_output.jpg''] \<in> dirs s
                    \<or> files s (cwd s @ [''outputs'', file_id @ ''_output.jpg'']) \<noteq> None
            then Inr (JObj [(''file_id'', JStr file_id), (''status'', JStr ''completed''),
                            (''progress'', JInt 100),
                            (''output_url'', JStr (''/outputs/'' @ file_id @ ''_output.jpg''))])
            else Inr (JObj [(''file_id'', JStr file_id), (''status'', JStr ''processing''),
                            (''progress'', JInt 50)]))"
    unfolding get_progress_def output_artifact_def[symmetric] Let_def e n
    using assms(2) by simp
  show "download_result s file_id =
           (if NAME_MAX < length file_id + 11 then Inl OSError
            else if cwd s @ [''outputs'', file_id @ ''_output.jpg''] \<in> dirs s
                    \<or> files s (cwd s @ [''outputs'', file_id @ ''_output.jpg'']) \<noteq> None
            then Inr \<lparr>fr_path = \<lparr>absolute = False, parts = [''outputs'', file_id @ ''_output.jpg'']\<rparr>,
                      fr_filename = ''colorized_'' @ file_id @ ''.jpg'',
                      fr_media_type = ''image/jpeg''\<rparr>
            else Inl (HTTPException 404 ''Result not found''))"
    unfolding download_result_def output_artifact_def[symmetric] Let_def e
    using assms(2) by (simp add: p)
qed

lemma status_and_fetch_examples:
  "get_progress service_with_files ''unknown'' =
     Inr (JObj [(''file_id'', JStr ''unknown''), (''status'', JStr ''processing''), (''progress'', JInt 50)])
   \<and> get_progress service_with_files ''job1'' =
     Inr (JObj [(''file_id'', JStr ''job1''), (''status'', JStr ''completed''), (''progress'', JInt 100),
                (''output_url'', JStr ''/outputs/job1_output.jpg'')])
   \<and> download_result service_with_files ''unknown'' = Inl (HTTPException 404 ''Result not found'')
   \<and> download_result service_with_files ''job1'' =
       Inr \<lparr>fr_path = \<lparr>absolute = False, parts = [''outputs'', ''job1_output.jpg'']\<rparr>,
            fr_filename = ''colorized_job1.jpg'', fr_media_type = ''image/jpeg''\<rparr>"
  using status_and_fetch_by_length [of "''unknown''" service_with_files]
        status_and_fetch_by_length [of "''job1''" service_with_files]
  by (simp add: NAME_MAX_def service_with_files_def ready_service_def)

text \<open>
  C7 on the code: for an identifier of 245 bytes, never submitted, the artifact does not
  exist, and its name of 256 bytes is over \<open>NAME_MAX\<close>. The existence check raises
  \<^verbatim>\<open>OSError\<close>, and with it \<^verbatim>\<open>status\<close> and \<^verbatim>\<open>fetch\<close>: \<^verbatim>\<open>status\<close> does not answer \<^verbatim>\<open>processing\<close>,
  and \<^verbatim>\<open>fetch\<close> does not answer the 404. One byte less, and both answer as for any unknown
  identifier.
\<close>

theorem long_id_status_raises:
  "files ready_service [''srv'', ''outputs'', replicate 245 CHR ''a'' @ ''_output.jpg''] = None
   \<and> get_progress ready_service (replicate 245 CHR ''a'') = Inl OSError
   \<and> download_result ready_service (replicate 245 CHR ''a'') = Inl OSError
   \<and> get_progress ready_service (replicate 244 CHR ''a'') =
       Inr (JObj [(''file_id'', JStr (replicate 244 CHR ''a'')), (''status'', JStr ''processing''),
                  (''progress'', JInt 50)])
   \<and> download_result ready_service (replicate 244 CHR ''a'') = Inl (HTTPException 404 ''Result not found'')"
proof -
  have d: "cwd ready_service \<in> dirs ready_service"
          "cwd ready_service @ [''outputs''] \<in> dirs ready_service"
    by (simp_all add: ready_service_def)
  have f: "files ready_service (cwd ready_service @ [''outputs'', x]) = None"
          "cwd ready_service @ [''outputs'', x] \<notin> dirs ready_service" for x
    by (simp_all add: ready_service_def)
  have g: "files ready_service [''srv'', ''outputs'', x] = None" for x
    by (simp add: ready_service_def)
  have a: "CHR ''/'' \<notin> set (replicate k CHR ''a'')" "CHR 0x00 \<notin> set (replicate k CHR ''a'')" for k
    by simp_all
  show ?thesis
    using status_and_fetch_by_length [OF a(1) a(2) d, of 245]
          status_and_fetch_by_length [OF a(1) a(2) d, of 244]
    by (simp add: NAME_MAX_def f g)
qed

text \<open>
  C10. \<^verbatim>\<open>status\<close> and \<^verbatim>\<open>fetch\<close> join the outputs directory with the identifier as it comes:
  the components of \<^verbatim>\<open>file_id\<close>, \<^verbatim>\<open>..\<close> included, become components of the checked path.
  So for an identifier \<^verbatim>\<open>../n\<close> the checked path leads to \<^verbatim>\<open>n_output.jpg\<close> in the working
  directory, outside the outputs directory; when such a file exists, under a name the
  filesystem can look up, \<^verbatim>\<open>status\<close> reports \<^verbatim>\<open>completed\<close> and \<^verbatim>\<open>fetch\<close> serves it, although no
  job wrote it. (With a null byte in the name the check answers that nothing exists,
  and over \<open>NAME_MAX\<close> it raises.)
\<close>

theorem traversal_escapes_outputs:
  assumes "CHR ''/'' \<notin> set n"
      and "cwd s \<in> dirs s"
      and "cwd s @ [''outputs''] \<in> dirs s"
      and "files s (cwd s @ [n @ ''_output.jpg'']) = Some d"
  shows "parts (truediv OUTPUT_DIR ((''../'' @ n) @ ''_output.jpg'')) = [''outputs'', ''..'', n @ ''_output.jpg'']
       \<and> resolve s (truediv OUTPUT_DIR ((''../'' @ n) @ ''_output.jpg'')) =
           (if NAME_MAX < length n + 11 then Inl ENAMETOOLONG else Inr (cwd s @ [n @ ''_output.jpg'']))
       \<and> \<not> inside_dir (cwd s @ [''outputs'']) (cwd s @ [n @ ''_output.jpg''])
       \<and> get_progress s (''../'' @ n) =
           (if CHR 0x00 \<in> set n
            then Inr (JObj [(''file_id'', JStr (''../'' @ n)), (''status'', JStr ''processing''),
                            (''progress'', JInt 50)])
            else if NAME_MAX < length n + 11 then Inl OSError
            else Inr (JObj [(''file_id'', JStr (''../'' @ n)), (''status'', JStr ''completed''),
                            (''progress'', JInt 100),
                            (''output_url'', JStr (''/outputs/'' @ n @ ''_output.jpg''))]))
       \<and> download_result s (''../'' @ n) =
           (if CHR 0x00 \<in> set n then Inl (HTTPException 404 ''Result not found'')
            else if NAME_MAX < length n + 11 then Inl OSError
            else Inr \<lparr>fr_path = \<lparr>absolute = False, parts = [''outputs'', ''..'', n @ ''_output.jpg'']\<rparr>,
                      fr_filename = ''colorized_'' @ (''../'' @ n) @ ''.jpg'',
                      fr_media_type = ''image/jpeg''\<rparr>)"
proof -
  let ?p = "output_artifact (''../'' @ n)"
  note p = traversal_parts [OF assms(1)]
  note r = path_exists_traversal(1) [OF assms(1,2,3)]
  have e: "path_exists s ?p =
           (if CHR 0x00 \<in> set n then Inr False
            else if NAME_MAX < length n + 11 then Inl OSError
            else Inr True)"
    unfolding path_exists_traversal(2) [OF assms(1,2,3)] using assms(4) by simp
  have o: "\<not> inside_dir (cwd s @ [''outputs'']) (cwd s @ [n @ ''_output.jpg''])"
    by (simp add: inside_dir_def)
  have n: "path_name ?p = n @ ''_output.jpg''"
    unfolding p by (simp add: path_name_def)
  have 1: "parts ?p = [''outputs'', ''..'', n @ ''_output.jpg'']"
    unfolding p by simp
  have g: "get_progress s (''../'' @ n) =
           (if CHR 0x00 \<in> set n
            then Inr (JObj [(''file_id'', JStr (''../'' @ n)), (''status'', JStr ''processing''),
                            (''progress'', JInt 50)])
            else if NAME_MAX < length n + 11 then Inl OSError
            else Inr (JObj [(''file_id'', JStr (''../'' @ n)), (''status'', JStr ''completed''),
                            (''progress'', JInt 100),
                            (''output_url'', JStr (''/outputs/'' @ n @ ''_output.jpg''))]))"
    unfolding get_progress_def output_artifact_def[symmetric] Let_def e n by simp
  have f: "download_result s (''../'' @ n) =
           (if CHR 0x00 \<in> set n then Inl (HTTPException 404 ''Result not found'')
            else if NAME_MAX < length n + 11 then Inl OSError
            else Inr \<lparr>fr_path = ?p,
                      fr_filename = ''colorized_'' @ (''../'' @ n) @ ''.jpg'',
                      fr_media_type = ''image/jpeg''\<rparr>)"
    unfolding download_result_def output_artifact_def[symmetric] Let_def e by simp
  show ?thesis
    unfolding output_artifact_def[symmetric]
    by (intro conjI) (rule 1, rule r, rule o, rule g, rule f [unfolded p])
qed

theorem traversal_escapes_outputs_witness:
  "resolve service_with_files (truediv OUTPUT_DIR (''../secret'' @ ''_output.jpg'')) = Inr [''srv'', ''secret_output.jpg'']
   \<and> get_progress service_with_files ''../secret'' =
           Inr (JObj [(''file_id'', JStr ''../secret''), (''status'', JStr ''completed''), (''progress'', JInt 100),
                      (''output_url'', JStr ''/outputs/secret_output.jpg'')])
   \<and> download_result service_with_files ''../secret'' =
       Inr \<lparr>fr_path = \<lparr>absolute = False, parts = [''outputs'', ''..'', ''secret_output.jpg'']\<rparr>,
            fr_filename = ''colorized_../secret.jpg'', fr_media_type = ''image/jpeg''\<rparr>"
  using traversal_escapes_outputs [of "''secret''" service_with_files OtherBytes]
  by (simp add: NAME_MAX_def service_with_files_def ready_service_def)

section \<open>The forward pass on shapes\<close>









lemma DoubleConv_ok:
  "1 \<le> h \<Longrightarrow> 1 \<le> w \<Longrightarrow> forward (DoubleConv i out mid) [n, i, h, w] = Inr [n, out, h, w]"
  by (simp add: DoubleConv_def Let_def)


lemma Down_ok:
  "2 \<le> h \<Longrightarrow> 2 \<le> w \<Longrightarrow> forward (Down i out) [n, i, h, w] = Inr [n, out, h div 2, w div 2]"
proof -
  assume hw: "2 \<le> h" "2 \<le> w"
  then have "(h - 2) div 2 + 1 = h div 2" "(w - 2) div 2 + 1 = w div 2" by presburger+
  moreover have "1 \<le> h div 2" "1 \<le> w div 2" using hw by presburger+
  ultimately show ?thesis using hw DoubleConv_ok[of "h div 2" "w div 2" i out None n]
    by (simp add: Down_def)
qed




lemma up_ok:
  "1 \<le> h \<Longrightarrow> 1 \<le> w \<Longrightarrow>
   forward (up (Up_init i out bilin)) [n, if bilin then c else i, h, w] =
     Inr [n, if bilin then c else i div 2, 2 * h, 2 * w]"
proof -
  assume "1 \<le> h" "1 \<le> w"
  then have "(h - 1) * 2 + 2 = 2 * h" "(w - 1) * 2 + 2 = 2 * w" by presburger+
  then show ?thesis by (simp add: Up_init_def mult.commute)
qed

lemma F_pad_4:
  "F_pad [n, c, h, w] pad_l pad_r pad_t pad_b =
     (if int h + pad_t + pad_b < 0 \<or> int w + pad_l + pad_r < 0 then Inl PadError
      else Inr [n, c, nat (int h + pad_t + pad_b), nat (int w + pad_l + pad_r)])"
  by (simp add: F_pad_def Let_def)

lemma Up_align_4:
  assumes "forward (up u) x1 = Inr [n, c, h1, w1]"
  shows "Up_align u x1 [n2, c2, h2, w2] = Inr [n, c, h2, w2]"
  using assms by (simp add: Up_align_def Up_padding_def F_pad_4 Let_def)

lemma torch_cat1_4:
  "torch_cat1 [n, c, h, w] [n', c', h', w'] =
     (if n = n' \<and> h = h' \<and> w = w' then Inr [n, c + c', h, w] else Inl CatMismatch)"
  by (auto simp: torch_cat1_def)

lemma Up_forward_ok:
  assumes "1 \<le> h1" "1 \<le> w1" "1 \<le> h2" "1 \<le> w2" "even i"
  shows "Up_forward (Up_init i out bilin) [n, if bilin then i div 2 else i, h1, w1] [n, i div 2, h2, w2]
           = Inr [n, out, h2, w2]"
proof -
  let ?u = "Up_init i out bilin"
  have a: "Up_align ?u [n, if bilin then i div 2 else i, h1, w1] [n, i div 2, h2, w2] =
             Inr [n, i div 2, h2, w2]"
    using up_ok[OF assms(1,2), of i out bilin n "i div 2"] Up_align_4 by (cases bilin) auto
  have i: "i div 2 + i div 2 = i" using assms(5) by presburger
  have c: "forward (conv ?u) [n, i, h2, w2] = Inr [n, out, h2, w2]"
    using DoubleConv_ok[OF assms(3,4)] by (simp add: Up_init_def)
  show ?thesis by (simp add: Up_forward_def a torch_cat1_4 i c)
qed

lemma UNet_forward_shape:
  assumes "16 \<le> h" "16 \<le> w"
  shows "UNet_forward (UNet_init nch ncl bilin) [n, nch, h, w] = Inr [n, ncl, h, w]"
proof -
  let ?net = "UNet_init nch ncl bilin"
  let ?f = "if bilin then 2 else (1::nat)"
  have s1: "forward (inc ?net) [n, nch, h, w] = Inr [n, 64, h, w]"
    using assms by (simp add: UNet_init_def DoubleConv_ok)
  have s2: "forward (down1 ?net) [n, 64, h, w] = Inr [n, 128, h div 2, w div 2]"
    using assms by (simp add: UNet_init_def Down_ok)
  have s3: "forward (down2 ?net) [n, 128, h div 2, w div 2] = Inr [n, 256, h div 2 div 2, w div 2 div 2]"
    using assms by (simp add: UNet_init_def Down_ok)
  have s4: "forward (down3 ?net) [n, 256, h div 2 div 2, w div 2 div 2]
              = Inr [n, 512, h div 2 div 2 div 2, w div 2 div 2 div 2]"
    using assms by (simp add: UNet_init_def Down_ok)
  have s5: "forward (down4 ?net) [n, 512, h div 2 div 2 div 2, w div 2 div 2 div 2]
              = Inr [n, 1024 div ?f, h div 2 div 2 div 2 div 2, w div 2 div 2 div 2 div 2]"
    using assms by (simp add: UNet_init_def Down_ok)
  have g: "1 \<le> h div 2 div 2 div 2 div 2" "1 \<le> w div 2 div 2 div 2 div 2"
          "1 \<le> h div 2 div 2 div 2" "1 \<le> w div 2 div 2 div 2"
          "1 \<le> h div 2 div 2" "1 \<le> w div 2 div 2"
          "1 \<le> h div 2" "1 \<le> w div 2" "1 \<le> h" "1 \<le> w"
    using assms by presburger+
  have u1: "Up_forward (up1 ?net) [n, 1024 div ?f, h div 2 div 2 div 2 div 2, w div 2 div 2 div 2 div 2]
              [n, 512, h div 2 div 2 div 2, w div 2 div 2 div 2]
            = Inr [n, 512 div ?f, h div 2 div 2 div 2, w div 2 div 2 div 2]"
    using Up_forward_ok[OF g(1,2,3,4), of 1024 "512 div ?f" bilin n] by (cases bilin) (simp_all add: UNet_init_def)
  have u2: "Up_forward (up2 ?net) [n, 512 div ?f, h div 2 div 2 div 2, w div 2 div 2 div 2]
              [n, 256, h div 2 div 2, w div 2 div 2]
            = Inr [n, 256 div ?f, h div 2 div 2, w div 2 div 2]"
    using Up_forward_ok[OF g(3,4,5,6), of 512 "256 div ?f" bilin n] by (cases bilin) (simp_all add: UNet_init_def)
  have u3: "Up_forward (up3 ?net) [n, 256 div ?f, h div 2 div 2, w div 2 div 2]
              [n, 128, h div 2, w div 2]
            = Inr [n, 128 div ?f, h div 2, w div 2]"
    using Up_forward_ok[OF g(5,6,7,8), of 256 "128 div ?f" bilin n] by (cases bilin) (simp_all add: UNet_init_def)
  have u4: "Up_forward (up4 ?net) [n, 128 div ?f, h div 2, w div 2] [n, 64, h, w]
            = Inr [n, 64, h, w]"
    using Up_forward_ok[OF g(7,8,9,10), of 128 64 bilin n] by (cases bilin) (simp_all add: UNet_init_def)
  have o: "forward (outc ?net) [n, 64, h, w] = Inr [n, ncl, h, w]"
    using assms by (simp add: UNet_init_def OutConv_def Let_def)
  show ?thesis
    by (simp add: UNet_forward_def s1 s2 s3 s4 s5 u1 u2 u3 u4 o)
qed









section \<open>The tensor codec and the colorizer\<close>

lemma UNetColorizer_init_model:
  assumes "UNetColorizer_init s0 model_path dev = (Inr self, s1)"
  shows "model self = UNet_init 1 3 False"
  using assms
  by (auto simp: UNetColorizer_init_def UNetColorizer_finish_def Let_def
           split: option.splits if_splits sum.splits prod.splits)

lemma preprocess_image_readable:
  assumes "read_file s p = Some (ImageFile rows cols ch)" "0 < rows" "0 < cols"
  shows "preprocess_image self s p =
           (Inr \<lparr>dtype = Float32, shape = [1, 1, 256, 256], bounds = Some (0, 1)\<rparr>,
            record_call (Cv2_resize 256 256 INTER_LINEAR) s)"
  using assms
  by (simp add: preprocess_image_def cv2_imread_gray_def cv2_resize_def default_interpolation_def
        Let_def unsqueeze0_def div_scalar_def astype_def)

lemma preprocess_image_unreadable:
  assumes "\<forall>rows cols ch. read_file s p \<noteq> Some (ImageFile rows cols ch)"
  shows "preprocess_image self s p = (Inl (ValueError (''Could not load image from '' @ p)), s)"
  using assms
  by (auto simp: preprocess_image_def cv2_imread_gray_def split: option.splits file_data.splits)

lemma postprocess_output_shape:
  "postprocess_output self \<lparr>dtype = Float32, shape = [1, c, h, w], bounds = None\<rparr> =
     Inr \<lparr>dtype = UInt8, shape = [h, w, c], bounds = Some (0, 255)\<rparr>"
  by (simp add: postprocess_output_def squeeze0_def transpose_120_def affine_255_def
        clip_0_255_def astype_def)

text \<open>
  C5. For every colorizer the constructor builds and every readable image, whatever
  its resolution, \<^verbatim>\<open>colorize\<close> returns a buffer of shape 256 by 256 by 3 with 8-bit
  elements.
\<close>

theorem colorize_output_format:
  assumes "UNetColorizer_init s0 model_path dev = (Inr self, s1)"
      and "read_file s image_path = Some (ImageFile rows cols ch)"
      and "0 < rows" and "0 < cols"
  shows "fst (colorize self s image_path) =
           Inr \<lparr>dtype = UInt8, shape = [256, 256, 3], bounds = Some (0, 255)\<rparr>"
proof -
  have m: "model self = UNet_init 1 3 False"
    using assms(1) by (rule UNetColorizer_init_model)
  have f: "UNet_call (UNet_init 1 3 False) \<lparr>dtype = Float32, shape = [1, 1, 256, 256], bounds = Some (0, 1)\<rparr>
             = Inr \<lparr>dtype = Float32, shape = [1, 3, 256, 256], bounds = None\<rparr>"
    by (simp add: UNet_call_def UNet_forward_shape)
  have p: "postprocess_output self \<lparr>dtype = Float32, shape = [1, 3, 256, 256], bounds = None\<rparr> =
             Inr \<lparr>dtype = UInt8, shape = [256, 256, 3], bounds = Some (0, 255)\<rparr>"
    by (rule postprocess_output_shape)
  show ?thesis
    unfolding colorize_def preprocess_image_readable[OF assms(2,3,4)] m
    by (simp only: prod.case sum.case Let_def array.simps f p fst_conv)
qed

lemma read_upload: "read_file service_with_upload ''uploads/job1_input.png'' = Some (ImageFile 100 37 1)"
  by (simp add: read_file_def resolve_def NAME_MAX_def Path_def startswith_def service_with_upload_def ready_service_def)

lemma init_example:
  "UNetColorizer_init ready_service None ''cpu'' =
     (Inr example_colorizer, logger INFO ''U-Net model initialized on device: cpu'' ready_service)"
  by (simp add: UNetColorizer_init_def UNetColorizer_finish_def example_colorizer_def ready_service_def Let_def)

theorem colorize_output_format_witness:
  "fst (colorize example_colorizer service_with_upload ''uploads/job1_input.png'') =
           Inr \<lparr>dtype = UInt8, shape = [256, 256, 3], bounds = Some (0, 255)\<rparr>"
  using colorize_output_format [OF init_example read_upload] by simp

text \<open>
  C6, as amended. \<^verbatim>\<open>preprocess_image\<close> reads the file as single-channel grayscale,
  resizes it to 256 by 256 with the interpolation \<^verbatim>\<open>cv2.resize\<close> defaults to (bilinear,
  \<^verbatim>\<open>INTER_LINEAR\<close>; the source passes none), scales the intensities to the interval from 0
  to 1 as 32-bit floats, and adds the batch and channel dimensions, giving the shape
  [1, 1, 256, 256]. When the file is missing or does not decode to a raster it raises
  \<^verbatim>\<open>ValueError\<close> and changes nothing.
\<close>

theorem preprocess_image_contract:
  "(read_file s p = Some (ImageFile rows cols ch) \<and> 0 < rows \<and> 0 < cols \<longrightarrow>
      preprocess_image self s p =
        (Inr \<lparr>dtype = Float32, shape = [1, 1, 256, 256], bounds = Some (0, 1)\<rparr>,
         record_call (Cv2_resize 256 256 INTER_LINEAR) s))
   \<and> ((\<forall>r c k. read_file s p \<noteq> Some (ImageFile r c k)) \<longrightarrow>
      preprocess_image self s p = (Inl (ValueError (''Could not load image from '' @ p)), s))"
  using preprocess_image_readable [of s p rows cols ch self] preprocess_image_unreadable [of s p self]
  by blast

lemma read_missing: "read_file service_with_upload ''uploads/none.png'' = None"
  by (simp add: read_file_def resolve_def NAME_MAX_def Path_def startswith_def service_with_upload_def ready_service_def)

theorem preprocess_image_contract_witness:
  "preprocess_image example_colorizer service_with_upload ''uploads/job1_input.png'' =
        (Inr \<lparr>dtype = Float32, shape = [1, 1, 256, 256], bounds = Some (0, 1)\<rparr>,
         record_call (Cv2_resize 256 256 INTER_LINEAR) service_with_upload)
   \<and> preprocess_image example_colorizer service_with_upload ''uploads/none.png'' =
        (Inl (ValueError ''Could not load image from uploads/none.png''), service_with_upload)"
  using preprocess_image_contract [of service_with_upload "''uploads/job1_input.png''" 100 37 1 example_colorizer]
        preprocess_image_contract [of service_with_upload "''uploads/none.png''" 0 0 0 example_colorizer]
        read_upload read_missing
  by simp

text \<open>
  C6 as stated fails: the one resampling call \<^verbatim>\<open>preprocess_image\<close> makes runs with
  \<^verbatim>\<open>INTER_LINEAR\<close>, not with the area interpolation \<^verbatim>\<open>INTER_AREA\<close>.
\<close>

theorem preprocess_image_resizes_bilinear:
  "calls (snd (preprocess_image example_colorizer service_with_upload ''uploads/job1_input.png''))
     = [Cv2_resize 256 256 INTER_LINEAR]
   \<and> Cv2_resize 256 256 INTER_AREA
       \<notin> set (calls (snd (preprocess_image example_colorizer service_with_upload ''uploads/job1_input.png'')))"
proof -
  have e: "preprocess_image example_colorizer service_with_upload ''uploads/job1_input.png'' =
             (Inr \<lparr>dtype = Float32, shape = [1, 1, 256, 256], bounds = Some (0, 1)\<rparr>,
              record_call (Cv2_resize 256 256 INTER_LINEAR) service_with_upload)"
    by (rule preprocess_image_readable[OF read_upload]) simp_all
  show ?thesis
    unfolding e by (simp add: record_call_def service_with_upload_def ready_service_def)
qed

section \<open>Submission and construction\<close>

text \<open>
  Importing the module leaves both service directories in place, next to whatever the
  working directory held.
\<close>

lemma create_directories_dirs:
  assumes "create_directories s = Inr s'"
  shows "cwd s' = cwd s \<and> files s' = files s \<and> colorizer s' = colorizer s
       \<and> cwd s' @ [''uploads''] \<in> dirs s' \<and> cwd s' @ [''outputs''] \<in> dirs s'"
proof -
  from assms obtain s1 where
    1: "mkdir_exist_ok s UPLOAD_DIR = Inr s1" and 2: "mkdir_exist_ok s1 OUTPUT_DIR = Inr s'"
    by (auto simp: create_directories_def split: sum.splits)
  have u: "UPLOAD_DIR = \<lparr>absolute = False, parts = [''uploads'']\<rparr>"
    by (simp add: UPLOAD_DIR_def Path_def startswith_def)
  have o: "OUTPUT_DIR = \<lparr>absolute = False, parts = [''outputs'']\<rparr>"
    by (simp add: OUTPUT_DIR_def Path_def startswith_def)
  from 1 have a: "cwd s1 = cwd s \<and> files s1 = files s \<and> colorizer s1 = colorizer s
      \<and> cwd s @ [''uploads''] \<in> dirs s1 \<and> dirs s \<subseteq> dirs s1"
    unfolding u by (auto simp: mkdir_exist_ok_def resolve_def NAME_MAX_def split: if_splits)
  from 2 have b: "cwd s' = cwd s1 \<and> files s' = files s1 \<and> colorizer s' = colorizer s1
      \<and> cwd s1 @ [''outputs''] \<in> dirs s' \<and> dirs s1 \<subseteq> dirs s'"
    unfolding o by (auto simp: mkdir_exist_ok_def resolve_def NAME_MAX_def split: if_splits)
  from a b show ?thesis by auto
qed

text \<open>
  C3, as amended. \<^verbatim>\<open>submit\<close> checks in the order of the source: it returns 400 when the
  upload's content type does not start with \<^verbatim>\<open>image/\<close>; otherwise 400 when the upload
  exceeds 10 MiB; otherwise 503 when the engine is unavailable. The 503 is therefore
  returned for every payload that passes both validations, not for every payload. A
  refused upload stores nothing and schedules nothing.
\<close>

theorem submit_checks_in_order:
  "(content_type file = Some ct \<and> \<not> startswith ct ''image/'' \<longrightarrow>
      colorize_image s file file_id = (Inl (HTTPException 400 ''File must be an image''), s, []))
   \<and> (content_type file = Some ct \<and> startswith ct ''image/'' \<and> 10 * 1024 * 1024 < file_size file \<longrightarrow>
      colorize_image s file file_id = (Inl (HTTPException 400 ''File size too large (max 10MB)''), s, []))
   \<and> (content_type file = Some ct \<and> startswith ct ''image/'' \<and> file_size file \<le> 10 * 1024 * 1024
        \<and> colorizer s = None \<longrightarrow>
      colorize_image s file file_id = (Inl (HTTPException 503 ''Colorization model not available''), s, []))"
  by (auto simp: colorize_image_def)

theorem submit_checks_in_order_witness:
  "colorize_image unavailable_service text_upload ''job1'' =
      (Inl (HTTPException 400 ''File must be an image''), unavailable_service, [])
   \<and> colorize_image ready_service (png_upload\<lparr>file_size := 10485761\<rparr>) ''job1'' =
      (Inl (HTTPException 400 ''File size too large (max 10MB)''), ready_service, [])
   \<and> colorize_image unavailable_service png_upload ''job1'' =
      (Inl (HTTPException 503 ''Colorization model not available''), unavailable_service, [])"
  using submit_checks_in_order [of text_upload "''text/plain''" unavailable_service "''job1''"]
        submit_checks_in_order [of "png_upload\<lparr>file_size := 10485761\<rparr>" "''image/png''" ready_service "''job1''"]
        submit_checks_in_order [of png_upload "''image/png''" unavailable_service "''job1''"]
  by (simp add: text_upload_def png_upload_def startswith_def unavailable_service_def ready_service_def)

text \<open>
  C3 as stated fails: with the engine unavailable, an upload that is not an image is
  answered with 400, not with 503.
\<close>

theorem invalid_payload_unavailable_engine_400:
  "fst (colorize_image unavailable_service text_upload ''job1'') = Inl (HTTPException 400 ''File must be an image'')
   \<and> fst (colorize_image unavailable_service text_upload ''job1'')
        \<noteq> Inl (HTTPException 503 ''Colorization model not available'')"
  by (simp add: colorize_image_def text_upload_def startswith_def unavailable_service_def ready_service_def)

text \<open>
  C2, as amended. When no weights location is given (\<^verbatim>\<open>None\<close> or the empty string), when
  the weights file holds an empty state dictionary, or when applying the loaded weights
  fails inside the \<^verbatim>\<open>try\<close>, construction completes without raising and yields a colorizer
  with untrained parameters (the last case logs a warning). The colorizer carries no
  unavailable state: \<^verbatim>\<open>startup_event\<close>, which passes no location, always ends with a
  colorizer in place, the health check reports it as loaded, and the service reports an
  unloaded model exactly when the global is \<^verbatim>\<open>None\<close>.
\<close>

theorem construction_without_weights:
  "((model_path = None \<or> model_path = Some []) \<longrightarrow>
      UNetColorizer_init s model_path dev =
        (Inr \<lparr>device = (if cuda_available s then dev else ''cpu''), model = UNet_init 1 3 False,
              pretrained = False\<rparr>,
         logger INFO (''U-Net model initialized on device: '' @ (if cuda_available s then dev else ''cpu'')) s))
   \<and> (p \<noteq> [] \<and> read_file s p = Some (WeightsFile False fits) \<longrightarrow>
      fst (UNetColorizer_init s (Some p) dev) =
        Inr \<lparr>device = (if cuda_available s then dev else ''cpu''), model = UNet_init 1 3 False,
             pretrained = False\<rparr>)
   \<and> (p \<noteq> [] \<and> read_file s p = Some (WeightsFile True False) \<longrightarrow>
      fst (UNetColorizer_init s (Some p) dev) =
        Inr \<lparr>device = (if cuda_available s then dev else ''cpu''), model = UNet_init 1 3 False,
             pretrained = False\<rparr>
      \<and> logs (snd (UNetColorizer_init s (Some p) dev)) =
          logs s @ [(WARNING, ''Failed to load pre-trained model: load_state_dict''),
                    (INFO, ''U-Net model initialized on device: '' @ (if cuda_available s then dev else ''cpu''))])
   \<and> colorizer (startup_event s) =
        Some \<lparr>device = ''cpu'', model = UNet_init 1 3 False, pretrained = False\<rparr>
   \<and> health_check (startup_event s) =
        JObj [(''status'', JStr ''healthy''), (''model_loaded'', JBool True),
              (''timestamp'', JStr ''2024-01-01T00:00:00Z'')]
   \<and> (health_check s =
        JObj [(''status'', JStr ''healthy''), (''model_loaded'', JBool False),
              (''timestamp'', JStr ''2024-01-01T00:00:00Z'')] \<longleftrightarrow> colorizer s = None)"
  by (auto simp: UNetColorizer_init_def UNetColorizer_finish_def Let_def torch_load_def
        startup_event_def health_check_def logger_def exn_str_def)


lemma read_weights:
  "read_file service_with_weights ''weights.pth'' = Some (WeightsFile True False)"
  "read_file service_with_weights ''empty.pth'' = Some (WeightsFile False False)"
  "read_file service_with_weights ''missing.pth'' = None"
  by (simp_all add: read_file_def resolve_def NAME_MAX_def Path_def startswith_def service_with_weights_def
        unavailable_service_def ready_service_def)

theorem construction_without_weights_witness:
  "fst (UNetColorizer_init service_with_weights None ''cpu'') = Inr example_colorizer
   \<and> fst (UNetColorizer_init service_with_weights (Some ''empty.pth'') ''cpu'') = Inr example_colorizer
   \<and> fst (UNetColorizer_init service_with_weights (Some ''weights.pth'') ''cpu'') = Inr example_colorizer
   \<and> logs (snd (UNetColorizer_init service_with_weights (Some ''weights.pth'') ''cpu'')) =
        [(WARNING, ''Failed to load pre-trained model: load_state_dict''),
         (INFO, ''U-Net model initialized on device: cpu'')]
   \<and> colorizer (startup_event service_with_weights) = Some example_colorizer"
  using construction_without_weights [of None service_with_weights "''cpu''" "''empty.pth''" False]
        construction_without_weights [of None service_with_weights "''cpu''" "''weights.pth''" False]
        read_weights
  by (simp add: example_colorizer_def service_with_weights_def unavailable_service_def ready_service_def)

text \<open>
  C2 as stated fails: a colorizer constructed with no weights location is not in an
  unavailable state. The service that polls it reports the model as loaded and accepts
  a job.
\<close>

theorem colorizer_without_weights_is_available:
  "fst (UNetColorizer_init unavailable_service None ''cpu'') = Inr example_colorizer
   \<and> colorizer (startup_event unavailable_service) = Some example_colorizer
   \<and> health_check (startup_event unavailable_service) =
        JObj [(''status'', JStr ''healthy''), (''model_loaded'', JBool True),
              (''timestamp'', JStr ''2024-01-01T00:00:00Z'')]
   \<and> fst (colorize_image (startup_event unavailable_service) jpg_upload ''job1'') =
        Inr (JObj [(''message'', JStr ''Image uploaded successfully''),
                   (''file_id'', JStr ''job1''),
                   (''status'', JStr ''processing''),
                   (''input_url'', JStr ''/uploads/job1_input.jpg''),
                   (''output_url'', JStr ''/outputs/job1_output.jpg''),
                   (''progress_url'', JStr ''/api/progress/job1'')])"
  by (simp add: UNetColorizer_init_def UNetColorizer_finish_def startup_event_def health_check_def
        colorize_image_def jpg_upload_def example_colorizer_def unavailable_service_def
        ready_service_def logger_def Let_def
        startswith_def endswith_def UPLOAD_DIR_def OUTPUT_DIR_def Path_def path_str_def truediv_def
        posixpath_join_def path_suffix_def path_name_def write_file_def resolve_def NAME_MAX_def)

text \<open>
  The guard of line 122 loads the weights outside the \<^verbatim>\<open>try\<close>: when that load raises,
  the constructor raises.
\<close>

lemma constructor_raises_when_guard_load_fails:
  assumes "p \<noteq> []" and "read_file s p = None"
  shows "UNetColorizer_init s (Some p) dev = (Inl OSError, s)"
  using assms by (simp add: UNetColorizer_init_def torch_load_def Let_def)

lemma constructor_raises_on_missing_weights:
  "UNetColorizer_init service_with_weights (Some ''missing.pth'') ''cpu'' = (Inl OSError, service_with_weights)"
  using constructor_raises_when_guard_load_fails [of "''missing.pth''" service_with_weights "''cpu''"] read_weights(3)
  by simp

section \<open>The background job\<close>

lemma split_sep_parts_no_sep: "x \<in> set (split_sep c s) \<Longrightarrow> c \<notin> set x"
proof (induction s arbitrary: x)
  case Nil
  then show ?case by simp
next
  case (Cons a s)
  then show ?case
    by (cases "split_sep c s") (auto simp: split_sep_nonempty split: if_splits)
qed

lemma Path_parts_no_slash: "x \<in> set (parts (Path s)) \<Longrightarrow> CHR ''/'' \<notin> set x"
  by (auto simp: Path_def dest: split_sep_parts_no_sep)

lemma path_suffix_no_slash: "CHR ''/'' \<notin> set (path_suffix (Path s))"
proof -
  have n: "CHR ''/'' \<notin> set (path_name (Path s))"
    using Path_parts_no_slash[of "last (parts (Path s))" s] by (auto simp: path_name_def)
  show ?thesis
    using n by (auto simp: path_suffix_def Let_def split: option.splits dest: in_set_dropD)
qed

lemma job_output_path:
  assumes "CHR ''/'' \<notin> set file_id"
  shows "path_str (truediv OUTPUT_DIR (file_id @ ''_output'' @ path_suffix (Path fname)))
           = ''outputs/'' @ file_id @ ''_output'' @ path_suffix (Path fname)"
    and "Path (''outputs/'' @ file_id @ ''_output'' @ path_suffix (Path fname))
           = \<lparr>absolute = False, parts = [''outputs'', file_id @ ''_output'' @ path_suffix (Path fname)]\<rparr>"
proof -
  let ?b = "file_id @ ''_output'' @ path_suffix (Path fname)"
  have 1: "CHR ''/'' \<notin> set ?b" using assms path_suffix_no_slash by simp
  have 2: "?b \<noteq> []" "?b \<noteq> ''.''" by (auto simp: append_eq_Cons_conv)
  have 3: "\<not> startswith ?b ''/''" using assms by (cases file_id) (auto simp: startswith_def)
  show p: "Path (''outputs/'' @ ?b) = \<lparr>absolute = False, parts = [''outputs'', ?b]\<rparr>"
    by (rule Path_outputs_name[OF 1 2])
  have "truediv OUTPUT_DIR ?b = Path (''outputs/'' @ ?b)"
    by (rule truediv_OUTPUT_DIR_relative[OF 3])
  then show "path_str (truediv OUTPUT_DIR ?b) = ''outputs/'' @ ?b"
    unfolding p by (simp add: path_str_def)
qed

lemma preprocess_image_state:
  "snd (preprocess_image self s p) = s \<or>
   snd (preprocess_image self s p) = record_call (Cv2_resize 256 256 INTER_LINEAR) s"
  by (simp add: preprocess_image_def cv2_resize_def default_interpolation_def Let_def
           split: option.splits)

lemma same_storage_refl: "same_storage s s"
  by (simp add: same_storage_def)

lemma same_storage_trans: "same_storage s s1 \<Longrightarrow> same_storage s1 s2 \<Longrightarrow> same_storage s s2"
  by (simp add: same_storage_def)

lemma same_storage_logger: "same_storage s (logger l m s)"
  by (simp add: same_storage_def logger_def)

lemma same_storage_record_call: "same_storage s (record_call c s)"
  by (simp add: same_storage_def record_call_def)

lemma colorize_frame: "same_storage s (snd (colorize self s p))"
proof -
  obtain r1 s1 where p: "preprocess_image self s p = (r1, s1)" by (cases "preprocess_image self s p")
  have 1: "same_storage s s1"
    using preprocess_image_state[of self s p] p
    by (auto simp: same_storage_refl same_storage_record_call)
  have 2: "snd (colorize self s p) = s1 \<or> snd (colorize self s p) = record_call (Model_forward (shape (projr r1))) s1"
    unfolding colorize_def p by (cases r1) (simp_all add: Let_def split: sum.splits)
  from 1 2 show ?thesis
    using same_storage_trans[OF 1 same_storage_record_call] by auto
qed

lemma process_image_frame: "same_storage s (snd (process_image s p c))"
proof (cases c)
  case None
  then show ?thesis by (simp add: process_image_def same_storage_logger)
next
  case (Some self)
  obtain r0 s0 where c: "colorize self s p = (r0, s0)" by (cases "colorize self s p")
  from colorize_frame[of s self p] c have 1: "same_storage s s0" by simp
  have "snd (process_image s p (Some self)) = logger ERROR (''Error processing image '' @ p @ '': '' @ exn_str (projl r0)) s0
      \<or> snd (process_image s p (Some self)) = logger INFO (''Image colorization completed for '' @ p) s0"
    unfolding process_image_def by (cases r0) (simp_all add: c)
  with 1 Some show ?thesis
    using same_storage_trans[OF 1 same_storage_logger] by auto
qed

lemma cv2_imwrite_not_written:
  assumes "fst (cv2_imwrite s p img) \<noteq> Inr True"
  shows "snd (cv2_imwrite s p img) = s"
proof (cases "rfind CHR ''.'' p")
  case None
  then show ?thesis by (simp add: cv2_imwrite_def)
next
  case (Some i)
  show ?thesis
  proof (cases "drop i p \<in> writers s")
    case False
    with Some show ?thesis by (simp add: cv2_imwrite_def)
  next
    case True
    have "(\<exists>h w. shape img = [h, w]) \<or> (\<exists>h w c. shape img = [h, w, c])
          \<or> (\<forall>h w. shape img \<noteq> [h, w]) \<and> (\<forall>h w c. shape img \<noteq> [h, w, c])" by blast
    then show ?thesis
    proof (elim disjE exE conjE)
      fix h w assume "shape img = [h, w]"
      with assms Some True show ?thesis
        by (cases "write_file s p (ImageFile h w 1)") (simp_all add: cv2_imwrite_def)
    next
      fix h w c assume "shape img = [h, w, c]"
      with assms Some True show ?thesis
        by (cases "write_file s p (ImageFile h w c)") (simp_all add: cv2_imwrite_def)
    next
      assume "\<forall>h w. shape img \<noteq> [h, w]" "\<forall>h w c. shape img \<noteq> [h, w, c]"
      with Some True show ?thesis
        by (simp add: cv2_imwrite_def split: list.splits)
    qed
  qed
qed


lemma mkdir_parents_outputs:
  assumes "cwd s \<in> dirs s" "cwd s @ [''outputs''] \<in> dirs s"
      and "mkdir_parents s \<lparr>absolute = False, parts = [''outputs'']\<rparr> = Inr s'"
  shows "s' = s"
  using assms by (auto simp: mkdir_parents_def insert_absorb split: if_splits)

lemma save_image_failed:
  assumes "fst (save_image s img p) = Inl e"
  shows "snd (save_image s img p) =
           logger ERROR (''Error saving image to '' @ p @ '': '' @ exn_str e)
             (case mkdir_parents s (path_parent (Path p)) of Inl e' \<Rightarrow> s | Inr s1 \<Rightarrow> s1)"
proof (cases "mkdir_parents s (path_parent (Path p))")
  case (Inl e')
  with assms show ?thesis by (simp add: save_image_def save_image_body_def)
next
  case (Inr s1)
  obtain r3 s3 where w: "cv2_imwrite s1 p img = (r3, s3)" by (cases "cv2_imwrite s1 p img")
  have b: "save_image_body s img p =
             (case r3 of Inl e' \<Rightarrow> (Inl e', s3)
              | Inr ok \<Rightarrow> if \<not> ok then (Inl (Exception (''Failed to save image to '' @ p)), s3)
                          else (Inr (), logger INFO (''Image saved successfully to '' @ p) s3))"
    by (simp add: save_image_body_def Inr w)
  from assms b have n: "r3 \<noteq> Inr True"
    by (auto simp: save_image_def)
  with cv2_imwrite_not_written[of s1 p img] w have s3: "s3 = s1" by simp
  from assms b n show ?thesis
    by (cases r3) (auto simp: save_image_def Inr s3 split: if_splits)
qed

lemma path_exists_cong:
  assumes "cwd s' = cwd s" "dirs s' = dirs s" "files s' = files s"
  shows "path_exists s' p = path_exists s p"
  using assms by (simp add: path_exists_def resolve_def split: sum.splits)

lemma same_storage_status:
  assumes "same_storage s s'"
  shows "get_progress s' fid = get_progress s fid" and "download_result s' fid = download_result s fid"
  using assms path_exists_cong[of s' s]
  by (simp_all add: same_storage_def get_progress_def download_result_def Let_def)

lemma work_failed_cases:
  assumes "fst (colorization_work s input_path output_path file_id) = Inl e"
  shows "(\<exists>s1. same_storage s s1 \<and> snd (colorization_work s input_path output_path file_id) = s1)
       \<or> (\<exists>s1 img. same_storage s s1
            \<and> fst (save_image s1 img output_path) = Inl e
            \<and> snd (colorization_work s input_path output_path file_id) = snd (save_image s1 img output_path))"
proof -
  let ?s0 = "logger INFO (''Starting colorization for file '' @ file_id) s"
  obtain r1 s1 where p: "process_image ?s0 input_path (colorizer s) = (r1, s1)"
    by (cases "process_image ?s0 input_path (colorizer s)")
  have f: "same_storage s s1"
    using same_storage_trans[OF same_storage_logger process_image_frame[of ?s0 input_path "colorizer s"]] p
    by simp
  show ?thesis
  proof (cases r1)
    case (Inl e1)
    show ?thesis unfolding colorization_work_def p Inl using f by simp
  next
    case (Inr img)
    obtain r2 s2 where sv: "save_image s1 img output_path = (r2, s2)"
      by (cases "save_image s1 img output_path")
    have "r2 = Inl e"
      using assms unfolding colorization_work_def p Inr by (cases r2) (simp_all add: sv)
    then have "same_storage s s1 \<and> fst (save_image s1 img output_path) = Inl e
        \<and> snd (colorization_work s input_path output_path file_id) = snd (save_image s1 img output_path)"
      unfolding colorization_work_def p Inr using f by (simp add: sv)
    then show ?thesis by blast
  qed
qed

lemma process_colorization_failed:
  assumes "fst (colorization_work s input_path output_path file_id) = Inl e"
  shows "process_colorization s input_path output_path file_id =
           logger ERROR (''Error in background colorization for '' @ file_id @ '': '' @ exn_str e)
             (snd (colorization_work s input_path output_path file_id))"
  using assms
  by (cases "colorization_work s input_path output_path file_id") (simp add: process_colorization_def)

lemma failed_work_files:
  assumes "fst (colorization_work s input_path output_path file_id) = Inl e"
  shows "files (snd (colorization_work s input_path output_path file_id)) = files s
       \<and> colorizer (snd (colorization_work s input_path output_path file_id)) = colorizer s"
  using work_failed_cases[OF assms]
proof (elim disjE exE conjE)
  fix s1 assume "same_storage s s1" "snd (colorization_work s input_path output_path file_id) = s1"
  then show ?thesis by (simp add: same_storage_def)
next
  fix s1 img
  assume a: "same_storage s s1" "fst (save_image s1 img output_path) = Inl e"
    "snd (colorization_work s input_path output_path file_id) = snd (save_image s1 img output_path)"
  have "files (case mkdir_parents s1 (path_parent (Path output_path)) of Inl e' \<Rightarrow> s1 | Inr s2 \<Rightarrow> s2) = files s1
      \<and> colorizer (case mkdir_parents s1 (path_parent (Path output_path)) of Inl e' \<Rightarrow> s1 | Inr s2 \<Rightarrow> s2) = colorizer s1"
    by (auto simp: mkdir_parents_def split: sum.splits)
  with a show ?thesis
    by (simp add: save_image_failed[OF a(2)] logger_def same_storage_def)
qed

lemma failed_work_storage:
  assumes "fst (colorization_work s input_path output_path file_id) = Inl e"
      and "CHR ''/'' \<notin> set file_id"
      and "output_path = path_str (truediv OUTPUT_DIR (file_id @ ''_output'' @ path_suffix (Path fname)))"
      and "cwd s \<in> dirs s" "cwd s @ [''outputs''] \<in> dirs s"
  shows "same_storage s (snd (colorization_work s input_path output_path file_id))"
  using work_failed_cases[OF assms(1)]
proof (elim disjE exE conjE)
  fix s1 assume "same_storage s s1" "snd (colorization_work s input_path output_path file_id) = s1"
  then show ?thesis by simp
next
  fix s1 img
  assume a: "same_storage s s1" "fst (save_image s1 img output_path) = Inl e"
    "snd (colorization_work s input_path output_path file_id) = snd (save_image s1 img output_path)"
  have pp: "path_parent (Path output_path) = \<lparr>absolute = False, parts = [''outputs'']\<rparr>"
    unfolding assms(3) job_output_path[OF assms(2)] by (simp add: path_parent_def)
  have d: "cwd s1 \<in> dirs s1" "cwd s1 @ [''outputs''] \<in> dirs s1"
    using a(1) assms(4,5) by (simp_all add: same_storage_def)
  have "(case mkdir_parents s1 (path_parent (Path output_path)) of Inl e' \<Rightarrow> s1 | Inr s2 \<Rightarrow> s2) = s1"
    unfolding pp using mkdir_parents_outputs[OF d] by (auto split: sum.splits)
  then have "snd (save_image s1 img output_path) = logger ERROR (''Error saving image to '' @ output_path @ '': '' @ exn_str e) s1"
    using save_image_failed[OF a(2)] by simp
  with a(1,3) show ?thesis
    using same_storage_trans[OF a(1) same_storage_logger] by simp
qed

text \<open>
  C8. When the work of a scheduled colorization job raises, \<^verbatim>\<open>process_colorization\<close>
  catches the error and appends one error line to the log. No file is written, so
  there is neither an output artifact nor a failure marker, and the engine is
  untouched. For a job as \<^verbatim>\<open>submit\<close> schedules it (an identifier without a slash, the output
  path built from it, both service directories in place) the state differs from the
  one before in the log and the call trace only: \<^verbatim>\<open>status\<close> and \<^verbatim>\<open>fetch\<close> answer every
  identifier as before, and \<^verbatim>\<open>status\<close> of the job still answers \<^verbatim>\<open>processing\<close>.
\<close>

theorem failed_job_is_silent:
  assumes "fst (colorization_work s input_path output_path file_id) = Inl e"
  shows "files (process_colorization s input_path output_path file_id) = files s
       \<and> colorizer (process_colorization s input_path output_path file_id) = colorizer s
       \<and> logs (process_colorization s input_path output_path file_id) =
           logs (snd (colorization_work s input_path output_path file_id))
             @ [(ERROR, ''Error in background colorization for '' @ file_id @ '': '' @ exn_str e)]
       \<and> (CHR ''/'' \<notin> set file_id
            \<and> output_path = path_str (truediv OUTPUT_DIR (file_id @ ''_output'' @ path_suffix (Path fname)))
            \<and> cwd s \<in> dirs s \<and> cwd s @ [''outputs''] \<in> dirs s \<longrightarrow>
          same_storage s (process_colorization s input_path output_path file_id)
          \<and> (\<forall>fid. get_progress (process_colorization s input_path output_path file_id) fid = get_progress s fid
                 \<and> download_result (process_colorization s input_path output_path file_id) fid = download_result s fid)
          \<and> (path_exists s (output_artifact file_id) = Inr False \<longrightarrow>
               get_progress (process_colorization s input_path output_path file_id) file_id =
                 Inr (JObj [(''file_id'', JStr file_id), (''status'', JStr ''processing''), (''progress'', JInt 50)])))"
proof -
  let ?s' = "process_colorization s input_path output_path file_id"
  let ?w = "snd (colorization_work s input_path output_path file_id)"
  note pc = process_colorization_failed[OF assms]
  have 1: "files ?s' = files s \<and> colorizer ?s' = colorizer s"
    using failed_work_files[OF assms] by (simp add: pc logger_def)
  have 2: "logs ?s' = logs ?w @ [(ERROR, ''Error in background colorization for '' @ file_id @ '': '' @ exn_str e)]"
    by (simp add: pc logger_def)
  have 3: "same_storage s ?s'"
    if h: "CHR ''/'' \<notin> set file_id"
       "output_path = path_str (truediv OUTPUT_DIR (file_id @ ''_output'' @ path_suffix (Path fname)))"
       "cwd s \<in> dirs s" "cwd s @ [''outputs''] \<in> dirs s"
    using same_storage_trans[OF failed_work_storage[OF assms h] same_storage_logger] by (simp add: pc)
  have 4: "get_progress s file_id =
             Inr (JObj [(''file_id'', JStr file_id), (''status'', JStr ''processing''), (''progress'', JInt 50)])"
    if "path_exists s (output_artifact file_id) = Inr False"
    using that by (simp add: get_progress_def output_artifact_def Let_def)
  show ?thesis
    using 1 2 3 4 same_storage_status[of s ?s'] by auto
qed

text \<open>A job whose upload is no image: submission accepts it, the work then raises.\<close>

lemma submit_corrupt:
  "snd (colorize_image ready_service corrupt_upload ''job1'') =
     (service_with_corrupt_upload, [(''uploads/job1_input.jpg'', ''outputs/job1_output.jpg'', ''job1'')])"
  by (simp add: colorize_image_def corrupt_upload_def ready_service_def service_with_corrupt_upload_def
        startswith_def endswith_def UPLOAD_DIR_def OUTPUT_DIR_def Path_def path_str_def truediv_def
        posixpath_join_def path_suffix_def path_name_def write_file_def resolve_def NAME_MAX_def Let_def)

lemma corrupt_work_fails:
  "fst (colorization_work service_with_corrupt_upload ''uploads/job1_input.jpg'' ''outputs/job1_output.jpg'' ''job1'')
     = Inl (ValueError ''Could not load image from uploads/job1_input.jpg'')"
  by (simp add: colorization_work_def process_image_def colorize_def preprocess_image_def
        cv2_imread_gray_def read_file_def resolve_def NAME_MAX_def Path_def startswith_def logger_def
        service_with_corrupt_upload_def ready_service_def)

lemma corrupt_job_paths:
  "CHR ''/'' \<notin> set ''job1''
   \<and> ''outputs/job1_output.jpg'' = path_str (truediv OUTPUT_DIR (''job1'' @ ''_output'' @ path_suffix (Path (filename corrupt_upload))))
   \<and> cwd service_with_corrupt_upload \<in> dirs service_with_corrupt_upload
   \<and> cwd service_with_corrupt_upload @ [''outputs''] \<in> dirs service_with_corrupt_upload"
  by (simp add: truediv_def OUTPUT_DIR_def Path_def path_str_def posixpath_join_def startswith_def
        endswith_def path_suffix_def path_name_def service_with_corrupt_upload_def ready_service_def
        corrupt_upload_def)

lemma corrupt_job_absent:
  "path_exists service_with_corrupt_upload (output_artifact ''job1'') = Inr False"
  using path_exists_output_artifact [of "''job1''" service_with_corrupt_upload]
  by (simp add: NAME_MAX_def service_with_corrupt_upload_def ready_service_def)

theorem failed_job_is_silent_witness:
  "files (process_colorization service_with_corrupt_upload ''uploads/job1_input.jpg'' ''outputs/job1_output.jpg'' ''job1'')
     = files service_with_corrupt_upload
   \<and> same_storage service_with_corrupt_upload
        (process_colorization service_with_corrupt_upload ''uploads/job1_input.jpg'' ''outputs/job1_output.jpg'' ''job1'')
   \<and> get_progress
        (process_colorization service_with_corrupt_upload ''uploads/job1_input.jpg'' ''outputs/job1_output.jpg'' ''job1'')
        ''job1''
       = Inr (JObj [(''file_id'', JStr ''job1''), (''status'', JStr ''processing''), (''progress'', JInt 50)])"
  using failed_job_is_silent [OF corrupt_work_fails, of "filename corrupt_upload"] corrupt_job_paths corrupt_job_absent
  by blast

section \<open>A job from submission to retrieval\<close>

lemma submit_png:
  "colorize_image ready_service png_upload ''job1'' =
     (Inr (JObj [(''message'', JStr ''Image uploaded successfully''),
                 (''file_id'', JStr ''job1''),
                 (''status'', JStr ''processing''),
                 (''input_url'', JStr ''/uploads/job1_input.png''),
                 (''output_url'', JStr ''/outputs/job1_output.png''),
                 (''progress_url'', JStr ''/api/progress/job1'')]),
      service_with_upload,
      [(''uploads/job1_input.png'', ''outputs/job1_output.png'', ''job1'')])"
  by (simp add: colorize_image_def png_upload_def ready_service_def service_with_upload_def
        startswith_def endswith_def UPLOAD_DIR_def OUTPUT_DIR_def Path_def path_str_def truediv_def
        posixpath_join_def path_suffix_def path_name_def write_file_def resolve_def NAME_MAX_def Let_def)


lemma colorize_readable:
  assumes "read_file s0 p = Some (ImageFile rows cols ch)" and "0 < rows" and "0 < cols"
  shows "colorize example_colorizer s0 p =
     (Inr \<lparr>dtype = UInt8, shape = [256, 256, 3], bounds = Some (0, 255)\<rparr>,
      record_call (Model_forward [1, 1, 256, 256]) (record_call (Cv2_resize 256 256 INTER_LINEAR) s0))"
proof -
  have f: "UNet_call (model example_colorizer) \<lparr>dtype = Float32, shape = [1, 1, 256, 256], bounds = Some (0, 1)\<rparr>
             = Inr \<lparr>dtype = Float32, shape = [1, 3, 256, 256], bounds = None\<rparr>"
    by (simp add: UNet_call_def UNet_forward_shape example_colorizer_def)
  have e: "preprocess_image example_colorizer s0 p =
             (Inr \<lparr>dtype = Float32, shape = [1, 1, 256, 256], bounds = Some (0, 1)\<rparr>,
              record_call (Cv2_resize 256 256 INTER_LINEAR) s0)"
    by (rule preprocess_image_readable[OF assms])
  have p: "postprocess_output example_colorizer \<lparr>dtype = Float32, shape = [1, 3, 256, 256], bounds = None\<rparr> =
             Inr \<lparr>dtype = UInt8, shape = [256, 256, 3], bounds = Some (0, 255)\<rparr>"
    by (rule postprocess_output_shape)
  show ?thesis
    unfolding colorize_def e
    by (simp only: prod.case sum.case Let_def array.simps f p)
qed

lemma png_job_state:
  "process_colorization service_with_upload ''uploads/job1_input.png'' ''outputs/job1_output.png'' ''job1'' =
     service_with_upload
       \<lparr>files := [[''srv'', ''uploads'', ''job1_input.png''] \<mapsto> ImageFile 100 37 1,
                  [''srv'', ''outputs'', ''job1_output.png''] \<mapsto> ImageFile 256 256 3],
        logs := [(INFO, ''Starting colorization for file job1''),
                 (INFO, ''Image colorization completed for uploads/job1_input.png''),
                 (INFO, ''Image saved successfully to outputs/job1_output.png''),
                 (INFO, ''Colorization completed for file job1'')],
        calls := [Cv2_resize 256 256 INTER_LINEAR, Model_forward [1, 1, 256, 256]]\<rparr>"
proof -
  let ?s0 = "logger INFO (''Starting colorization for file '' @ ''job1'') service_with_upload"
  have r: "read_file ?s0 ''uploads/job1_input.png'' = Some (ImageFile 100 37 1)"
    by (simp add: read_file_def resolve_def NAME_MAX_def Path_def startswith_def service_with_upload_def
          ready_service_def logger_def)
  have k: "colorize example_colorizer ?s0 ''uploads/job1_input.png'' =
     (Inr \<lparr>dtype = UInt8, shape = [256, 256, 3], bounds = Some (0, 255)\<rparr>,
      record_call (Model_forward [1, 1, 256, 256]) (record_call (Cv2_resize 256 256 INTER_LINEAR) ?s0))"
    by (rule colorize_readable[OF r]) simp_all
  have c: "colorizer service_with_upload = Some example_colorizer"
    by (simp add: service_with_upload_def ready_service_def)
  show ?thesis
    unfolding process_colorization_def colorization_work_def process_image_def c option.case k
    by (simp add: save_image_def save_image_body_def mkdir_parents_def
          path_parent_def Path_def startswith_def cv2_imwrite_def write_file_def resolve_def NAME_MAX_def
          logger_def record_call_def service_with_upload_def ready_service_def insert_absorb)
qed

text \<open>A JPEG upload under the name \<^verbatim>\<open>photo.jpg\<close> does complete: its suffix is the fixed one.\<close>

lemma jpg_job_completes:
  "get_progress (snd (submit_and_finish ready_service jpg_upload ''job1'')) ''job1'' =
     Inr (JObj [(''file_id'', JStr ''job1''), (''status'', JStr ''completed''), (''progress'', JInt 100),
                (''output_url'', JStr ''/outputs/job1_output.jpg'')])"
proof -
  let ?s1 = "ready_service\<lparr>files := [[''srv'', ''uploads'', ''job1_input.jpg''] \<mapsto> ImageFile 100 37 1]\<rparr>"
  let ?s0 = "logger INFO (''Starting colorization for file '' @ ''job1'') ?s1"
  have s: "snd (colorize_image ready_service jpg_upload ''job1'') =
             (?s1, [(''uploads/job1_input.jpg'', ''outputs/job1_output.jpg'', ''job1'')])"
    by (simp add: colorize_image_def jpg_upload_def ready_service_def
          startswith_def endswith_def UPLOAD_DIR_def OUTPUT_DIR_def Path_def path_str_def truediv_def
          posixpath_join_def path_suffix_def path_name_def write_file_def resolve_def NAME_MAX_def Let_def)
  have t: "snd (submit_and_finish ready_service jpg_upload ''job1'') =
             process_colorization ?s1 ''uploads/job1_input.jpg'' ''outputs/job1_output.jpg'' ''job1''"
    using s by (cases "colorize_image ready_service jpg_upload ''job1''") (simp add: submit_and_finish_def)
  have r: "read_file ?s0 ''uploads/job1_input.jpg'' = Some (ImageFile 100 37 1)"
    by (simp add: read_file_def resolve_def NAME_MAX_def Path_def startswith_def ready_service_def logger_def)
  have k: "colorize example_colorizer ?s0 ''uploads/job1_input.jpg'' =
     (Inr \<lparr>dtype = UInt8, shape = [256, 256, 3], bounds = Some (0, 255)\<rparr>,
      record_call (Model_forward [1, 1, 256, 256]) (record_call (Cv2_resize 256 256 INTER_LINEAR) ?s0))"
    by (rule colorize_readable[OF r]) simp_all
  have c: "colorizer ?s1 = Some example_colorizer"
    by (simp add: ready_service_def)
  have j: "files (process_colorization ?s1 ''uploads/job1_input.jpg'' ''outputs/job1_output.jpg'' ''job1'')
             [''srv'', ''outputs'', ''job1_output.jpg''] = Some (ImageFile 256 256 3)
         \<and> dirs (process_colorization ?s1 ''uploads/job1_input.jpg'' ''outputs/job1_output.jpg'' ''job1'')
             = dirs ready_service
         \<and> cwd (process_colorization ?s1 ''uploads/job1_input.jpg'' ''outputs/job1_output.jpg'' ''job1'')
             = cwd ready_service"
    unfolding process_colorization_def colorization_work_def process_image_def c option.case k
    by (simp add: save_image_def save_image_body_def mkdir_parents_def
          path_parent_def Path_def startswith_def cv2_imwrite_def write_file_def resolve_def NAME_MAX_def
          logger_def record_call_def ready_service_def insert_absorb)
  have p: "path_exists (process_colorization ?s1 ''uploads/job1_input.jpg'' ''outputs/job1_output.jpg'' ''job1'')
             (output_artifact ''job1'') = Inr True"
    using j path_exists_output_artifact
      [of "''job1''" "process_colorization ?s1 ''uploads/job1_input.jpg'' ''outputs/job1_output.jpg'' ''job1''"]
    by (simp add: NAME_MAX_def ready_service_def)
  have n: "path_name (output_artifact ''job1'') = ''job1_output.jpg''"
    using output_artifact_parts [of "''job1''"] by (simp add: path_name_def)
  have g: "get_progress (process_colorization ?s1 ''uploads/job1_input.jpg'' ''outputs/job1_output.jpg'' ''job1'') ''job1'' =
     Inr (JObj [(''file_id'', JStr ''job1''), (''status'', JStr ''completed''), (''progress'', JInt 100),
                (''output_url'', JStr (''/outputs/'' @ path_name (output_artifact ''job1'')))])"
    using p by (simp add: get_progress_def output_artifact_def Let_def)
  show ?thesis
    unfolding t g n by simp
qed

text \<open>
  C1 on the code: a PNG upload is accepted, its job runs to the end and logs its
  completion, and the result is written under the upload's own extension, at
  \<^verbatim>\<open>job1_output.png\<close>. Nothing exists at \<^verbatim>\<open>job1_output.jpg\<close>, the location \<^verbatim>\<open>status\<close> and
  \<^verbatim>\<open>fetch\<close> check: \<^verbatim>\<open>status\<close> keeps answering \<^verbatim>\<open>processing\<close> and \<^verbatim>\<open>fetch\<close> answers 404.
\<close>

theorem png_job_never_completes:
  "fst (submit_and_finish ready_service png_upload ''job1'') =
     Inr (JObj [(''message'', JStr ''Image uploaded successfully''),
                (''file_id'', JStr ''job1''),
                (''status'', JStr ''processing''),
                (''input_url'', JStr ''/uploads/job1_input.png''),
                (''output_url'', JStr ''/outputs/job1_output.png''),
                (''progress_url'', JStr ''/api/progress/job1'')])
   \<and> last (logs (snd (submit_and_finish ready_service png_upload ''job1'')))
       = (INFO, ''Colorization completed for file job1'')
   \<and> files (snd (submit_and_finish ready_service png_upload ''job1'')) [''srv'', ''outputs'', ''job1_output.png'']
       = Some (ImageFile 256 256 3)
   \<and> files (snd (submit_and_finish ready_service png_upload ''job1'')) [''srv'', ''outputs'', ''job1_output.jpg'']
       = None
   \<and> get_progress (snd (submit_and_finish ready_service png_upload ''job1'')) ''job1''
       = Inr (JObj [(''file_id'', JStr ''job1''), (''status'', JStr ''processing''), (''progress'', JInt 50)])
   \<and> download_result (snd (submit_and_finish ready_service png_upload ''job1'')) ''job1''
       = Inl (HTTPException 404 ''Result not found'')"
proof -
  have s: "submit_and_finish ready_service png_upload ''job1'' =
             (fst (colorize_image ready_service png_upload ''job1''),
              process_colorization service_with_upload ''uploads/job1_input.png'' ''outputs/job1_output.png'' ''job1'')"
    by (simp add: submit_and_finish_def submit_png)
  have e: "path_exists (process_colorization service_with_upload ''uploads/job1_input.png'' ''outputs/job1_output.png'' ''job1'')
              (truediv OUTPUT_DIR (''job1'' @ ''_output.jpg'')) = Inr False"
    unfolding png_job_state
    by (simp add: path_exists_def resolve_def NAME_MAX_def PATH_MAX_def truediv_def OUTPUT_DIR_def Path_def path_str_def
          posixpath_join_def startswith_def endswith_def service_with_upload_def ready_service_def)
  show ?thesis
    unfolding s using e
    by (simp add: submit_png png_job_state get_progress_def download_result_def Let_def)
qed

section \<open>Memory release around inference\<close>

text \<open>
  C9, as amended. \<^verbatim>\<open>colorize\<close> triggers no memory-release cycle: the calls it adds
  contain neither a garbage collection nor a cache clear. The cycle belongs to the
  optimizer's \<^verbatim>\<open>process_image_optimized\<close>, which \<^verbatim>\<open>colorize\<close> does not use: it runs one
  cycle (garbage collection, and the cache clear on CUDA) before the inference call
  and, when inference returns, one right after it; a cycle changes nothing but the call
  trace, and the result is the model's output as it is. When inference raises, the
  result is \<^verbatim>\<open>None\<close> and only the first cycle has run.
\<close>

theorem release_cycles_around_inference:
  "(\<exists>cs. calls (snd (colorize self s p)) = calls s @ cs
          \<and> Gc_collect \<notin> set cs \<and> Cuda_empty_cache \<notin> set cs)
   \<and> clear_memory mo s = s\<lparr>calls := calls s @ release_cycle mo\<rparr>
   \<and> (mdl (if length (shape x) = 3 then unsqueeze0 x else x) = Inr out \<longrightarrow>
        process_image_optimized mo s mdl x =
          (Some out,
           s\<lparr>calls := calls s @ release_cycle mo
                         @ [Model_forward (shape (if length (shape x) = 3 then unsqueeze0 x else x))]
                         @ release_cycle mo\<rparr>))
   \<and> (mdl (if length (shape x) = 3 then unsqueeze0 x else x) = Inl e \<longrightarrow>
        process_image_optimized mo s mdl x =
          (None,
           s\<lparr>calls := calls s @ release_cycle mo
                         @ [Model_forward (shape (if length (shape x) = 3 then unsqueeze0 x else x))]\<rparr>))"
proof -
  obtain r1 s1 where p: "preprocess_image self s p = (r1, s1)" by (cases "preprocess_image self s p")
  have 1: "s1 = s \<or> s1 = record_call (Cv2_resize 256 256 INTER_LINEAR) s"
    using preprocess_image_state[of self s p] p by simp
  have 2: "snd (colorize self s p) = s1
         \<or> snd (colorize self s p) = record_call (Model_forward (shape (projr r1))) s1"
    unfolding colorize_def p by (cases r1) (simp_all add: Let_def split: sum.splits)
  have a: "\<exists>cs. calls (snd (colorize self s p)) = calls s @ cs
          \<and> Gc_collect \<notin> set cs \<and> Cuda_empty_cache \<notin> set cs"
    using 1 2 by (auto simp: record_call_def)
  have b: "clear_memory mo s' = s'\<lparr>calls := calls s' @ release_cycle mo\<rparr>" for s'
    by (simp add: clear_memory_def release_cycle_def record_call_def Let_def)
  have c: "process_image_optimized mo s mdl x =
          (Some out,
           s\<lparr>calls := calls s @ release_cycle mo
                         @ [Model_forward (shape (if length (shape x) = 3 then unsqueeze0 x else x))]
                         @ release_cycle mo\<rparr>)"
    if "mdl (if length (shape x) = 3 then unsqueeze0 x else x) = Inr out"
    using that by (simp add: process_image_optimized_def b record_call_def Let_def)
  have d: "process_image_optimized mo s mdl x =
          (None,
           s\<lparr>calls := calls s @ release_cycle mo
                         @ [Model_forward (shape (if length (shape x) = 3 then unsqueeze0 x else x))]\<rparr>)"
    if "mdl (if length (shape x) = 3 then unsqueeze0 x else x) = Inl e"
    using that by (simp add: process_image_optimized_def b record_call_def Let_def)
  from a b c d show ?thesis by blast
qed

theorem release_cycles_around_inference_witness:
  "process_image_optimized \<lparr>mo_device = ''cuda''\<rparr> ready_service (UNet_call (UNet_init 1 3 False))
      \<lparr>dtype = Float32, shape = [1, 1, 256, 256], bounds = Some (0, 1)\<rparr>
     = (Some \<lparr>dtype = Float32, shape = [1, 3, 256, 256], bounds = None\<rparr>,
        ready_service\<lparr>calls := [Gc_collect, Cuda_empty_cache, Model_forward [1, 1, 256, 256],
                                 Gc_collect, Cuda_empty_cache]\<rparr>)
   \<and> process_image_optimized \<lparr>mo_device = ''cpu''\<rparr> ready_service (UNet_call (UNet_init 1 3 False))
      \<lparr>dtype = Float32, shape = [1, 256, 256], bounds = Some (0, 1)\<rparr>
     = (Some \<lparr>dtype = Float32, shape = [1, 3, 256, 256], bounds = None\<rparr>,
        ready_service\<lparr>calls := [Gc_collect, Model_forward [1, 1, 256, 256], Gc_collect]\<rparr>)
   \<and> process_image_optimized \<lparr>mo_device = ''cpu''\<rparr> ready_service (UNet_call (UNet_init 1 3 False))
      \<lparr>dtype = Float32, shape = [1, 1, 8, 8], bounds = Some (0, 1)\<rparr>
     = (None, ready_service\<lparr>calls := [Gc_collect, Model_forward [1, 1, 8, 8]]\<rparr>)"
proof -
  have f: "UNet_call (UNet_init 1 3 False) \<lparr>dtype = Float32, shape = [1, 1, 256, 256], bounds = Some (0, 1)\<rparr>
             = Inr \<lparr>dtype = Float32, shape = [1, 3, 256, 256], bounds = None\<rparr>"
    by (simp add: UNet_call_def UNet_forward_shape)
  have g: "UNet_call (UNet_init 1 3 False) \<lparr>dtype = Float32, shape = [1, 1, 8, 8], bounds = Some (0, 1)\<rparr>
             = Inl (RuntimeError PoolTooSmall)"
    by (simp add: UNet_call_def UNet_forward_def UNet_init_def DoubleConv_def Down_def)
  show ?thesis
    using release_cycles_around_inference
            [where mo = "\<lparr>mo_device = ''cuda''\<rparr>" and s = ready_service
               and mdl = "UNet_call (UNet_init 1 3 False)"
               and x = "\<lparr>dtype = Float32, shape = [1, 1, 256, 256], bounds = Some (0, 1)\<rparr>"
               and out = "\<lparr>dtype = Float32, shape = [1, 3, 256, 256], bounds = None\<rparr>"]
          release_cycles_around_inference
            [where mo = "\<lparr>mo_device = ''cpu''\<rparr>" and s = ready_service
               and mdl = "UNet_call (UNet_init 1 3 False)"
               and x = "\<lparr>dtype = Float32, shape = [1, 256, 256], bounds = Some (0, 1)\<rparr>"
               and out = "\<lparr>dtype = Float32, shape = [1, 3, 256, 256], bounds = None\<rparr>"]
          release_cycles_around_inference
            [where mo = "\<lparr>mo_device = ''cpu''\<rparr>" and s = ready_service
               and mdl = "UNet_call (UNet_init 1 3 False)"
               and x = "\<lparr>dtype = Float32, shape = [1, 1, 8, 8], bounds = Some (0, 1)\<rparr>"
               and e = "RuntimeError PoolTooSmall"]
          f g
    by (simp add: release_cycle_def unsqueeze0_def ready_service_def)
qed

text \<open>
  C9 as stated fails: a call of \<^verbatim>\<open>colorize\<close> resamples and runs the network, and makes no
  garbage-collection call before or after.
\<close>

theorem colorize_makes_no_release_call:
  "calls (snd (colorize example_colorizer service_with_upload ''uploads/job1_input.png''))
     = [Cv2_resize 256 256 INTER_LINEAR, Model_forward [1, 1, 256, 256]]
   \<and> Gc_collect \<notin> set (calls (snd (colorize example_colorizer service_with_upload ''uploads/job1_input.png'')))"
proof -
  have k: "colorize example_colorizer service_with_upload ''uploads/job1_input.png'' =
     (Inr \<lparr>dtype = UInt8, shape = [256, 256, 3], bounds = Some (0, 255)\<rparr>,
      record_call (Model_forward [1, 1, 256, 256])
        (record_call (Cv2_resize 256 256 INTER_LINEAR) service_with_upload))"
    by (rule colorize_readable[OF read_upload]) simp_all
  show ?thesis
    unfolding k by (simp add: record_call_def service_with_upload_def ready_service_def)
qed

end
